theory Spec2Isabelle
  imports Main
begin

section \<open>Execution model of the Move modules\<close>

text \<open>
  The four contracts \<open>afjp_token\<close>, \<open>juventud_token\<close>, \<open>afjp_staking\<close> and
  \<open>afjp_vesting\<close> are Move modules published at the named address \<open>@afjp_crypto\<close>.
  Addresses are only ever compared for equality, so the address space is the module
  address and all the others. A \<open>&signer\<close> is represented by its address.
\<close>

datatype address = afjp_crypto | Account nat

type_synonym u64 = nat

definition MAX_U64 :: nat where
  "MAX_U64 = 18446744073709551615"

text \<open>
  A Move transaction either commits a new global state or aborts and leaves the state
  as it was. An abort is a value: \<open>assert!(c, code)\<close> of a module aborts with that
  module's code, checked \<open>u64\<close> arithmetic aborts on overflow, underflow and division by
  zero, \<open>borrow_global\<close> aborts on a missing resource, \<open>move_to\<close> on an existing one, and
  the framework's \<open>coin\<close> module has aborts of its own.
\<close>

datatype location = AfjpToken | JuventudToken | AfjpStaking | AfjpVesting

datatype coin_error =
    ECOIN_INFO_ADDRESS_MISMATCH
  | ECOIN_STORE_NOT_PUBLISHED
  | EINSUFFICIENT_BALANCE

datatype abort =
    Abort location nat
  | CoinAbort coin_error
  | ARITHMETIC_ERROR
  | MISSING_DATA
  | RESOURCE_ALREADY_EXISTS

type_synonym 'a result = "abort + 'a"

definition and_then :: "'a result \<Rightarrow> ('a \<Rightarrow> 'b result) \<Rightarrow> 'b result" where
  "and_then m f = (case m of Inl e \<Rightarrow> Inl e | Inr x \<Rightarrow> f x)"

definition add64 :: "u64 \<Rightarrow> u64 \<Rightarrow> u64 result" where
  "add64 a b = (if a + b \<le> MAX_U64 then Inr (a + b) else Inl ARITHMETIC_ERROR)"

definition sub64 :: "u64 \<Rightarrow> u64 \<Rightarrow> u64 result" where
  "sub64 a b = (if b \<le> a then Inr (a - b) else Inl ARITHMETIC_ERROR)"

definition mul64 :: "u64 \<Rightarrow> u64 \<Rightarrow> u64 result" where
  "mul64 a b = (if a * b \<le> MAX_U64 then Inr (a * b) else Inl ARITHMETIC_ERROR)"

definition div64 :: "u64 \<Rightarrow> u64 \<Rightarrow> u64 result" where
  "div64 a b = (if b = 0 then Inl ARITHMETIC_ERROR else Inr (a div b))"

subsection \<open>The framework's coin store\<close>

text \<open>
  \<open>aptos_framework::coin\<close> is outside the repository. What the modules use of it is
  modelled here: a \<open>CoinStore\<close> per registered address holding a \<open>u64\<close> value;
  \<open>coin::balance\<close> reads it (0 for an address without a store); \<open>coin::withdraw\<close> needs a
  store holding at least the amount; \<open>coin::deposit\<close> needs a store at the recipient and
  merges with checked addition; \<open>coin::transfer\<close> is a withdraw followed by a deposit;
  \<open>coin::initialize\<close> is only allowed to the address that declares the coin type;
  minting and burning with a capability create and destroy the coin value that is then
  deposited or was withdrawn. No module ever uses its freeze capability, so no store is
  frozen. The framework's own supply aggregate is not part of the model.
\<close>

type_synonym coin_stores = "address \<rightharpoonup> u64"

definition coin_balance :: "coin_stores \<Rightarrow> address \<Rightarrow> u64" where
  "coin_balance cs a = (case cs a of None \<Rightarrow> 0 | Some v \<Rightarrow> v)"

definition coin_register :: "coin_stores \<Rightarrow> address \<Rightarrow> coin_stores" where
  "coin_register cs a = (case cs a of None \<Rightarrow> cs(a \<mapsto> 0) | Some v \<Rightarrow> cs)"

definition coin_withdraw :: "coin_stores \<Rightarrow> address \<Rightarrow> u64 \<Rightarrow> coin_stores result" where
  "coin_withdraw cs a amount =
     (case cs a of
        None \<Rightarrow> Inl (CoinAbort ECOIN_STORE_NOT_PUBLISHED)
      | Some v \<Rightarrow>
          if v < amount then Inl (CoinAbort EINSUFFICIENT_BALANCE)
          else Inr (cs(a \<mapsto> v - amount)))"

definition coin_deposit :: "coin_stores \<Rightarrow> address \<Rightarrow> u64 \<Rightarrow> coin_stores result" where
  "coin_deposit cs a amount =
     (case cs a of
        None \<Rightarrow> Inl (CoinAbort ECOIN_STORE_NOT_PUBLISHED)
      | Some v \<Rightarrow> and_then (add64 v amount) (\<lambda>v'. Inr (cs(a \<mapsto> v'))))"

definition coin_transfer :: "coin_stores \<Rightarrow> address \<Rightarrow> address \<Rightarrow> u64 \<Rightarrow> coin_stores result" where
  "coin_transfer cs from to amount =
     and_then (coin_withdraw cs from amount) (\<lambda>cs'. coin_deposit cs' to amount)"

definition sum_balances :: "coin_stores \<Rightarrow> nat" where
  "sum_balances cs = (\<Sum>a \<in> dom cs. coin_balance cs a)"

subsection \<open>Resources\<close>

text \<open>\<open>afjp_token\<close>: \<open>TokenInfo\<close>, \<open>TokenEvents\<close> and the three event structs.\<close>

record TokenInfo =
  total_supply :: u64
  burned_amount :: u64
  admin :: address

datatype MintEvent = MintEvent u64 address u64
datatype BurnEvent = BurnEvent u64 address u64
datatype TransferEvent = TransferEvent u64 address address u64

record TokenEvents =
  mint_events :: "MintEvent list"
  burn_events :: "BurnEvent list"
  transfer_events :: "TransferEvent list"

text \<open>\<open>juventud_token\<close>: its own \<open>TokenInfo\<close>, the discount system and its events.\<close>

record JuventudTokenInfo =
  j_total_supply :: u64
  j_total_burned :: u64
  total_afjp_burned :: u64
  j_admin :: address
  exchange_rate :: u64

record DiscountSystem =
  base_discount_rate :: u64
  max_discount_per_transaction :: u64
  total_discounts_applied :: u64

record UserDiscountInfo =
  total_discounts_used :: u64
  last_discount_time :: u64
  discount_tier :: nat

datatype BurnAFJPEvent = BurnAFJPEvent address u64 u64 u64
datatype DiscountAppliedEvent = DiscountAppliedEvent address u64 u64 u64 u64
datatype ExchangeRateUpdatedEvent = ExchangeRateUpdatedEvent u64 u64 u64

record JuventudTokenEvents =
  burn_afjp_events :: "BurnAFJPEvent list"
  discount_applied_events :: "DiscountAppliedEvent list"
  exchange_rate_updated_events :: "ExchangeRateUpdatedEvent list"

text \<open>\<open>afjp_staking\<close>: the pool, the per-staker record and the events.\<close>

record StakingPool =
  total_staked :: u64
  total_rewards_distributed :: u64
  reward_rate_per_second :: u64
  last_update_time :: u64
  accumulated_reward_per_token :: u64
  pool_admin :: address
  is_active :: bool
  total_stakers :: u64

record StakerInfo =
  staked_amount :: u64
  reward_debt :: u64
  last_stake_time :: u64
  total_rewards_claimed :: u64
  user_reward_per_token_paid :: u64

datatype StakeEvent = StakeEvent address u64 u64
datatype UnstakeEvent = UnstakeEvent address u64 u64
datatype ClaimEvent = ClaimEvent address u64 u64

record StakingEvents =
  stake_events :: "StakeEvent list"
  unstake_events :: "UnstakeEvent list"
  claim_events :: "ClaimEvent list"

text \<open>\<open>afjp_vesting\<close>: pool statistics and events; the module stores no schedule.\<close>

record VestingPool =
  total_vested :: u64
  total_released :: u64
  vesting_admin :: address
  schedule_count :: u64

datatype ScheduleCreatedEvent = ScheduleCreatedEvent address u64 u64 u64 u64 address
datatype TokensReleasedEvent = TokensReleasedEvent address u64 u64 u64
datatype ScheduleRevokedEvent = ScheduleRevokedEvent address u64 u64 address

record VestingEvents =
  schedule_created_events :: "ScheduleCreatedEvent list"
  tokens_released_events :: "TokensReleasedEvent list"
  schedule_revoked_events :: "ScheduleRevokedEvent list"

text \<open>
  The global state: the clock read by \<open>timestamp::now_seconds\<close>, the coin stores of the
  two coin types, and one table per resource type, keyed by the address that holds it.
\<close>

record world =
  now_seconds :: u64
  afjp_coins :: coin_stores
  juventud_coins :: coin_stores
  token_capabilities :: "address set"
  token_info :: "address \<rightharpoonup> TokenInfo"
  token_events :: "address \<rightharpoonup> TokenEvents"
  juventud_capabilities :: "address set"
  juventud_info :: "address \<rightharpoonup> JuventudTokenInfo"
  discount_system :: "address \<rightharpoonup> DiscountSystem"
  user_discount_info :: "address \<rightharpoonup> UserDiscountInfo"
  juventud_events :: "address \<rightharpoonup> JuventudTokenEvents"
  staking_pool :: "address \<rightharpoonup> StakingPool"
  staker_info :: "address \<rightharpoonup> StakerInfo"
  staking_events :: "address \<rightharpoonup> StakingEvents"
  vesting_pool :: "address \<rightharpoonup> VestingPool"
  vesting_events :: "address \<rightharpoonup> VestingEvents"

definition genesis :: world where
  "genesis = \<lparr> now_seconds = 0,
      afjp_coins = Map.empty, juventud_coins = Map.empty,
      token_capabilities = {}, token_info = Map.empty, token_events = Map.empty,
      juventud_capabilities = {}, juventud_info = Map.empty,
      discount_system = Map.empty, user_discount_info = Map.empty,
      juventud_events = Map.empty,
      staking_pool = Map.empty, staker_info = Map.empty, staking_events = Map.empty,
      vesting_pool = Map.empty, vesting_events = Map.empty \<rparr>"

text \<open>Every module resolves the administrator as the constant module address.\<close>

definition get_admin_address :: address where
  "get_admin_address = afjp_crypto"

section \<open>Module afjp\_token\<close>

definition token_E_NOT_ADMIN :: nat where "token_E_NOT_ADMIN = 1"
definition token_E_ALREADY_INITIALIZED :: nat where "token_E_ALREADY_INITIALIZED = 2"
definition token_E_NOT_INITIALIZED :: nat where "token_E_NOT_INITIALIZED = 3"
definition token_E_INSUFFICIENT_BALANCE :: nat where "token_E_INSUFFICIENT_BALANCE = 4"
definition token_E_INVALID_AMOUNT :: nat where "token_E_INVALID_AMOUNT = 5"

definition get_balance :: "world \<Rightarrow> address \<Rightarrow> u64" where
  "get_balance s account = coin_balance (afjp_coins s) account"

definition token_initialize :: "world \<Rightarrow> address \<Rightarrow> world result" where
  "token_initialize s admin_addr =
     (if admin_addr \<in> token_capabilities s
        then Inl (Abort AfjpToken token_E_ALREADY_INITIALIZED)
      else if admin_addr \<noteq> afjp_crypto
        then Inl (CoinAbort ECOIN_INFO_ADDRESS_MISMATCH)
      else if \<not> (token_info s admin_addr = None \<and> token_events s admin_addr = None)
        then Inl RESOURCE_ALREADY_EXISTS
      else Inr (s\<lparr> token_capabilities := insert admin_addr (token_capabilities s),
                   token_info := (token_info s)(admin_addr \<mapsto>
                     \<lparr> total_supply = 0, burned_amount = 0, admin = admin_addr \<rparr>),
                   token_events := (token_events s)(admin_addr \<mapsto>
                     \<lparr> mint_events = [], burn_events = [], transfer_events = [] \<rparr>) \<rparr>))"

definition mint :: "world \<Rightarrow> address \<Rightarrow> address \<Rightarrow> u64 \<Rightarrow> world result" where
  "mint s admin_addr recipient amount =
     (if admin_addr \<notin> token_capabilities s
        then Inl (Abort AfjpToken token_E_NOT_INITIALIZED)
      else if \<not> amount > 0
        then Inl (Abort AfjpToken token_E_INVALID_AMOUNT)
      else case token_info s admin_addr of
        None \<Rightarrow> Inl MISSING_DATA
      | Some info \<Rightarrow>
       (case token_events s admin_addr of
          None \<Rightarrow> Inl MISSING_DATA
        | Some events \<Rightarrow>
            if admin info \<noteq> admin_addr
              then Inl (Abort AfjpToken token_E_NOT_ADMIN)
            else
              and_then (coin_deposit (afjp_coins s) recipient amount) (\<lambda>coins.
              and_then (add64 (total_supply info) amount) (\<lambda>supply.
              Inr (s\<lparr> afjp_coins := coins,
                      token_info := (token_info s)(admin_addr \<mapsto>
                        info\<lparr> total_supply := supply \<rparr>),
                      token_events := (token_events s)(admin_addr \<mapsto>
                        events\<lparr> mint_events := mint_events events @
                          [MintEvent amount recipient (now_seconds s)] \<rparr>) \<rparr>)))))"

definition burn :: "world \<Rightarrow> address \<Rightarrow> u64 \<Rightarrow> world result" where
  "burn s account_addr amount =
     (let admin_addr = get_admin_address in
      if admin_addr \<notin> token_capabilities s
        then Inl (Abort AfjpToken token_E_NOT_INITIALIZED)
      else if \<not> amount > 0
        then Inl (Abort AfjpToken token_E_INVALID_AMOUNT)
      else case token_info s admin_addr of
        None \<Rightarrow> Inl MISSING_DATA
      | Some info \<Rightarrow>
       (case token_events s admin_addr of
          None \<Rightarrow> Inl MISSING_DATA
        | Some events \<Rightarrow>
            if \<not> coin_balance (afjp_coins s) account_addr \<ge> amount
              then Inl (Abort AfjpToken token_E_INSUFFICIENT_BALANCE)
            else
              and_then (coin_withdraw (afjp_coins s) account_addr amount) (\<lambda>coins.
              and_then (add64 (burned_amount info) amount) (\<lambda>burned.
              Inr (s\<lparr> afjp_coins := coins,
                      token_info := (token_info s)(admin_addr \<mapsto>
                        info\<lparr> burned_amount := burned \<rparr>),
                      token_events := (token_events s)(admin_addr \<mapsto>
                        events\<lparr> burn_events := burn_events events @
                          [BurnEvent amount account_addr (now_seconds s)] \<rparr>) \<rparr>)))))"

definition transfer :: "world \<Rightarrow> address \<Rightarrow> address \<Rightarrow> u64 \<Rightarrow> world result" where
  "transfer s from_addr to amount =
     (if \<not> amount > 0
        then Inl (Abort AfjpToken token_E_INVALID_AMOUNT)
      else if \<not> coin_balance (afjp_coins s) from_addr \<ge> amount
        then Inl (Abort AfjpToken token_E_INSUFFICIENT_BALANCE)
      else
        and_then (coin_transfer (afjp_coins s) from_addr to amount) (\<lambda>coins.
          let admin_addr = get_admin_address in
          case token_events s admin_addr of
            None \<Rightarrow> Inr (s\<lparr> afjp_coins := coins \<rparr>)
          | Some events \<Rightarrow>
              Inr (s\<lparr> afjp_coins := coins,
                      token_events := (token_events s)(admin_addr \<mapsto>
                        events\<lparr> transfer_events := transfer_events events @
                          [TransferEvent amount from_addr to (now_seconds s)] \<rparr>) \<rparr>)))"

definition get_total_supply :: "world \<Rightarrow> u64" where
  "get_total_supply s =
     (case token_info s get_admin_address of Some info \<Rightarrow> total_supply info | None \<Rightarrow> 0)"

definition get_burned_amount :: "world \<Rightarrow> u64" where
  "get_burned_amount s =
     (case token_info s get_admin_address of Some info \<Rightarrow> burned_amount info | None \<Rightarrow> 0)"

definition get_circulating_supply :: "world \<Rightarrow> u64 result" where
  "get_circulating_supply s = sub64 (get_total_supply s) (get_burned_amount s)"

section \<open>Module juventud\_token\<close>

definition juventud_E_NOT_INITIALIZED :: nat where "juventud_E_NOT_INITIALIZED = 1"
definition juventud_E_ALREADY_INITIALIZED :: nat where "juventud_E_ALREADY_INITIALIZED = 2"
definition juventud_E_INVALID_AMOUNT :: nat where "juventud_E_INVALID_AMOUNT = 3"
definition E_INSUFFICIENT_AFJP_BALANCE :: nat where "E_INSUFFICIENT_AFJP_BALANCE = 4"
definition E_INSUFFICIENT_JUVENTUD_BALANCE :: nat where "E_INSUFFICIENT_JUVENTUD_BALANCE = 5"
definition juventud_E_NOT_ADMIN :: nat where "juventud_E_NOT_ADMIN = 6"
definition E_INVALID_DISCOUNT_AMOUNT :: nat where "E_INVALID_DISCOUNT_AMOUNT = 8"

definition AFJP_TO_JUVENTUD_RATE :: u64 where "AFJP_TO_JUVENTUD_RATE = 10"
definition MIN_BURN_AMOUNT :: u64 where "MIN_BURN_AMOUNT = 100"
definition MAX_DISCOUNT_PERCENTAGE :: u64 where "MAX_DISCOUNT_PERCENTAGE = 50"

definition juventud_get_balance :: "world \<Rightarrow> address \<Rightarrow> u64" where
  "juventud_get_balance s user = coin_balance (juventud_coins s) user"

definition juventud_initialize :: "world \<Rightarrow> address \<Rightarrow> world result" where
  "juventud_initialize s admin_addr =
     (if admin_addr \<in> juventud_capabilities s
        then Inl (Abort JuventudToken juventud_E_ALREADY_INITIALIZED)
      else if admin_addr \<noteq> afjp_crypto
        then Inl (CoinAbort ECOIN_INFO_ADDRESS_MISMATCH)
      else if \<not> (juventud_info s admin_addr = None \<and> discount_system s admin_addr = None
              \<and> juventud_events s admin_addr = None)
        then Inl RESOURCE_ALREADY_EXISTS
      else Inr (s\<lparr> juventud_capabilities := insert admin_addr (juventud_capabilities s),
                   juventud_info := (juventud_info s)(admin_addr \<mapsto>
                     \<lparr> j_total_supply = 0, j_total_burned = 0, total_afjp_burned = 0,
                       j_admin = admin_addr, exchange_rate = AFJP_TO_JUVENTUD_RATE \<rparr>),
                   discount_system := (discount_system s)(admin_addr \<mapsto>
                     \<lparr> base_discount_rate = 1000, max_discount_per_transaction = 500000,
                       total_discounts_applied = 0 \<rparr>),
                   juventud_events := (juventud_events s)(admin_addr \<mapsto>
                     \<lparr> burn_afjp_events = [], discount_applied_events = [],
                       exchange_rate_updated_events = [] \<rparr>) \<rparr>))"

definition burn_afjp_for_juventud :: "world \<Rightarrow> address \<Rightarrow> u64 \<Rightarrow> world result" where
  "burn_afjp_for_juventud s user_addr afjp_amount =
     (if \<not> afjp_amount \<ge> MIN_BURN_AMOUNT
        then Inl (Abort JuventudToken juventud_E_INVALID_AMOUNT)
      else if \<not> get_balance s user_addr \<ge> afjp_amount
        then Inl (Abort JuventudToken E_INSUFFICIENT_AFJP_BALANCE)
      else let admin_addr = get_admin_address in
      if admin_addr \<notin> juventud_capabilities s
        then Inl (Abort JuventudToken juventud_E_NOT_INITIALIZED)
      else case juventud_info s admin_addr of
        None \<Rightarrow> Inl MISSING_DATA
      | Some info \<Rightarrow>
       (case juventud_events s admin_addr of
          None \<Rightarrow> Inl MISSING_DATA
        | Some events \<Rightarrow>
            and_then (mul64 afjp_amount (exchange_rate info)) (\<lambda>juventud_amount.
            and_then (burn s user_addr afjp_amount) (\<lambda>s1.
            and_then (coin_deposit (juventud_coins s1) user_addr juventud_amount) (\<lambda>coins.
            and_then (add64 (j_total_supply info) juventud_amount) (\<lambda>supply.
            and_then (add64 (total_afjp_burned info) afjp_amount) (\<lambda>burned.
            Inr (s1\<lparr> juventud_coins := coins,
                     juventud_info := (juventud_info s1)(admin_addr \<mapsto>
                       info\<lparr> j_total_supply := supply, total_afjp_burned := burned \<rparr>),
                     juventud_events := (juventud_events s1)(admin_addr \<mapsto>
                       events\<lparr> burn_afjp_events := burn_afjp_events events @
                         [BurnAFJPEvent user_addr afjp_amount juventud_amount
                            (now_seconds s1)] \<rparr>) \<rparr>))))))))"

definition apply_rental_discount :: "world \<Rightarrow> address \<Rightarrow> u64 \<Rightarrow> u64 \<Rightarrow> world result" where
  "apply_rental_discount s user_addr rental_amount discount_percentage =
     (if \<not> rental_amount > 0
        then Inl (Abort JuventudToken juventud_E_INVALID_AMOUNT)
      else if \<not> (discount_percentage > 0 \<and> discount_percentage \<le> MAX_DISCOUNT_PERCENTAGE)
        then Inl (Abort JuventudToken E_INVALID_DISCOUNT_AMOUNT)
      else let admin_addr = get_admin_address in
      case discount_system s admin_addr of
        None \<Rightarrow> Inl (Abort JuventudToken juventud_E_NOT_INITIALIZED)
      | Some system \<Rightarrow>
          and_then (mul64 rental_amount discount_percentage) (\<lambda>product.
          and_then (div64 product 100) (\<lambda>discount_amount.
          if \<not> discount_amount \<le> max_discount_per_transaction system
            then Inl (Abort JuventudToken E_INVALID_DISCOUNT_AMOUNT)
          else let required_juventud = discount_amount in
          if \<not> coin_balance (juventud_coins s) user_addr \<ge> required_juventud
            then Inl (Abort JuventudToken E_INSUFFICIENT_JUVENTUD_BALANCE)
          else
            and_then (coin_withdraw (juventud_coins s) user_addr required_juventud) (\<lambda>coins.
            if admin_addr \<notin> juventud_capabilities s then Inl MISSING_DATA
            else
              and_then
                (case user_discount_info s user_addr of
                   None \<Rightarrow> Inr \<lparr> total_discounts_used = discount_amount,
                                 last_discount_time = now_seconds s, discount_tier = 0 \<rparr>
                 | Some user_info \<Rightarrow>
                     and_then (add64 (total_discounts_used user_info) discount_amount) (\<lambda>used.
                     Inr (user_info\<lparr> total_discounts_used := used,
                            last_discount_time := now_seconds s,
                            discount_tier :=
                              (if used \<ge> 100000 then 2
                               else if used \<ge> 50000 then 1
                               else discount_tier user_info) \<rparr>))) (\<lambda>user_info'.
              and_then (add64 (total_discounts_applied system) discount_amount) (\<lambda>applied.
              case juventud_events s admin_addr of
                None \<Rightarrow> Inl MISSING_DATA
              | Some events \<Rightarrow>
                  and_then (sub64 rental_amount discount_amount) (\<lambda>final_amount.
                  Inr (s\<lparr> juventud_coins := coins,
                          discount_system := (discount_system s)(admin_addr \<mapsto>
                            system\<lparr> total_discounts_applied := applied \<rparr>),
                          user_discount_info := (user_discount_info s)(user_addr \<mapsto>
                            user_info'),
                          juventud_events := (juventud_events s)(admin_addr \<mapsto>
                            events\<lparr> discount_applied_events :=
                              discount_applied_events events @
                              [DiscountAppliedEvent user_addr rental_amount discount_amount
                                 final_amount (now_seconds s)] \<rparr>) \<rparr>))))))))"

definition update_exchange_rate :: "world \<Rightarrow> address \<Rightarrow> u64 \<Rightarrow> world result" where
  "update_exchange_rate s admin_addr new_rate =
     (case juventud_info s admin_addr of
        None \<Rightarrow> Inl (Abort JuventudToken juventud_E_NOT_INITIALIZED)
      | Some info \<Rightarrow>
          if j_admin info \<noteq> admin_addr
            then Inl (Abort JuventudToken juventud_E_NOT_ADMIN)
          else if \<not> new_rate > 0
            then Inl (Abort JuventudToken juventud_E_INVALID_AMOUNT)
          else case juventud_events s admin_addr of
            None \<Rightarrow> Inl MISSING_DATA
          | Some events \<Rightarrow>
              Inr (s\<lparr> juventud_info := (juventud_info s)(admin_addr \<mapsto>
                        info\<lparr> exchange_rate := new_rate \<rparr>),
                      juventud_events := (juventud_events s)(admin_addr \<mapsto>
                        events\<lparr> exchange_rate_updated_events :=
                          exchange_rate_updated_events events @
                          [ExchangeRateUpdatedEvent (exchange_rate info) new_rate
                             (now_seconds s)] \<rparr>) \<rparr>))"

section \<open>Module afjp\_staking\<close>

definition staking_E_NOT_INITIALIZED :: nat where "staking_E_NOT_INITIALIZED = 1"
definition staking_E_ALREADY_INITIALIZED :: nat where "staking_E_ALREADY_INITIALIZED = 2"
definition staking_E_INVALID_AMOUNT :: nat where "staking_E_INVALID_AMOUNT = 3"
definition staking_E_INSUFFICIENT_BALANCE :: nat where "staking_E_INSUFFICIENT_BALANCE = 4"
definition E_INSUFFICIENT_STAKED :: nat where "E_INSUFFICIENT_STAKED = 5"
definition E_NO_REWARDS :: nat where "E_NO_REWARDS = 6"
definition staking_E_NOT_ADMIN :: nat where "staking_E_NOT_ADMIN = 7"
definition E_POOL_NOT_ACTIVE :: nat where "E_POOL_NOT_ACTIVE = 8"

definition SECONDS_PER_YEAR :: u64 where "SECONDS_PER_YEAR = 31536000"
definition BASE_APY :: u64 where "BASE_APY = 1200"
definition MAX_APY :: u64 where "MAX_APY = 2500"
definition MIN_STAKE_AMOUNT :: u64 where "MIN_STAKE_AMOUNT = 100"
definition REWARD_PRECISION :: u64 where "REWARD_PRECISION = 1000000"

text \<open>
  The two rates computed from constants stay far below \<open>2^64\<close> at every step, so they
  are written with plain arithmetic.
\<close>

definition staking_initialize :: "world \<Rightarrow> address \<Rightarrow> world result" where
  "staking_initialize s admin_addr =
     (if staking_pool s admin_addr \<noteq> None
        then Inl (Abort AfjpStaking staking_E_ALREADY_INITIALIZED)
      else
        let current_time = now_seconds s;
            reward_rate = (BASE_APY * REWARD_PRECISION) div (10000 * SECONDS_PER_YEAR)
        in if staking_events s admin_addr \<noteq> None then Inl RESOURCE_ALREADY_EXISTS
        else Inr (s\<lparr> staking_pool := (staking_pool s)(admin_addr \<mapsto>
                       \<lparr> total_staked = 0, total_rewards_distributed = 0,
                         reward_rate_per_second = reward_rate,
                         last_update_time = current_time,
                         accumulated_reward_per_token = 0,
                         pool_admin = admin_addr, is_active = True, total_stakers = 0 \<rparr>),
                     staking_events := (staking_events s)(admin_addr \<mapsto>
                       \<lparr> stake_events = [], unstake_events = [], claim_events = [] \<rparr>) \<rparr>))"

definition update_pool_rewards :: "world \<Rightarrow> world result" where
  "update_pool_rewards s =
     (let admin_addr = get_admin_address in
      case staking_pool s admin_addr of
        None \<Rightarrow> Inr s
      | Some pool \<Rightarrow>
          let current_time = now_seconds s in
          and_then
            (if total_staked pool > 0 \<and> current_time > last_update_time pool then
               and_then (sub64 current_time (last_update_time pool)) (\<lambda>time_elapsed.
               and_then (mul64 time_elapsed (reward_rate_per_second pool)) (\<lambda>reward_per_token.
               and_then (add64 (accumulated_reward_per_token pool) reward_per_token) (\<lambda>acc.
               Inr (pool\<lparr> accumulated_reward_per_token := acc \<rparr>))))
             else Inr pool) (\<lambda>pool'.
          Inr (s\<lparr> staking_pool := (staking_pool s)(admin_addr \<mapsto>
                    pool'\<lparr> last_update_time := current_time \<rparr>) \<rparr>)))"

definition calculate_rewards :: "world \<Rightarrow> address \<Rightarrow> u64 result" where
  "calculate_rewards s user =
     (case staker_info s user of
        None \<Rightarrow> Inr 0
      | Some info \<Rightarrow>
         (let admin_addr = get_admin_address in
          case staking_pool s admin_addr of
            None \<Rightarrow> Inr 0
          | Some pool \<Rightarrow>
              let current_time = now_seconds s in
              and_then
                (if total_staked pool > 0 \<and> current_time > last_update_time pool then
                   and_then (sub64 current_time (last_update_time pool)) (\<lambda>time_elapsed.
                   and_then (mul64 time_elapsed (reward_rate_per_second pool))
                     (\<lambda>additional_reward_per_token.
                   add64 (accumulated_reward_per_token pool) additional_reward_per_token))
                 else Inr (accumulated_reward_per_token pool))
                (\<lambda>accumulated.
              and_then (sub64 accumulated (user_reward_per_token_paid info))
                (\<lambda>reward_per_token_diff.
              and_then (mul64 (staked_amount info) reward_per_token_diff) (\<lambda>product.
              div64 product REWARD_PRECISION)))))"

definition stake_tokens :: "world \<Rightarrow> address \<Rightarrow> u64 \<Rightarrow> world result" where
  "stake_tokens s user_addr amount =
     (if \<not> amount \<ge> MIN_STAKE_AMOUNT
        then Inl (Abort AfjpStaking staking_E_INVALID_AMOUNT)
      else if \<not> get_balance s user_addr \<ge> amount
        then Inl (Abort AfjpStaking staking_E_INSUFFICIENT_BALANCE)
      else let admin_addr = get_admin_address in
      if staking_pool s admin_addr = None
        then Inl (Abort AfjpStaking staking_E_NOT_INITIALIZED)
      else
        and_then (update_pool_rewards s) (\<lambda>s1.
        case staking_pool s1 admin_addr of
          None \<Rightarrow> Inl MISSING_DATA
        | Some pool \<Rightarrow>
            if \<not> is_active pool then Inl (Abort AfjpStaking E_POOL_NOT_ACTIVE)
            else
              and_then (coin_transfer (afjp_coins s1) user_addr admin_addr amount) (\<lambda>coins.
              and_then
                (case staker_info s1 user_addr of
                   None \<Rightarrow>
                     and_then (add64 (total_stakers pool) 1) (\<lambda>stakers.
                     Inr (\<lparr> staked_amount = amount, reward_debt = 0,
                            last_stake_time = now_seconds s1, total_rewards_claimed = 0,
                            user_reward_per_token_paid =
                              accumulated_reward_per_token pool \<rparr>,
                          pool\<lparr> total_stakers := stakers \<rparr>))
                 | Some info \<Rightarrow>
                     and_then (add64 (staked_amount info) amount) (\<lambda>staked.
                     Inr (info\<lparr> staked_amount := staked,
                            last_stake_time := now_seconds s1,
                            user_reward_per_token_paid :=
                              accumulated_reward_per_token pool \<rparr>,
                          pool))) (\<lambda>(info', pool1).
              and_then (add64 (total_staked pool1) amount) (\<lambda>staked_total.
              case staking_events s1 admin_addr of
                None \<Rightarrow> Inl MISSING_DATA
              | Some events \<Rightarrow>
                  Inr (s1\<lparr> afjp_coins := coins,
                           staking_pool := (staking_pool s1)(admin_addr \<mapsto>
                             pool1\<lparr> total_staked := staked_total \<rparr>),
                           staker_info := (staker_info s1)(user_addr \<mapsto> info'),
                           staking_events := (staking_events s1)(admin_addr \<mapsto>
                             events\<lparr> stake_events := stake_events events @
                               [StakeEvent user_addr amount (now_seconds s1)] \<rparr>) \<rparr>))))))"

definition unstake_tokens :: "world \<Rightarrow> address \<Rightarrow> u64 \<Rightarrow> world result" where
  "unstake_tokens s user_addr amount =
     (if \<not> amount > 0
        then Inl (Abort AfjpStaking staking_E_INVALID_AMOUNT)
      else case staker_info s user_addr of
        None \<Rightarrow> Inl (Abort AfjpStaking E_INSUFFICIENT_STAKED)
      | Some info0 \<Rightarrow>
          if \<not> staked_amount info0 \<ge> amount
            then Inl (Abort AfjpStaking E_INSUFFICIENT_STAKED)
          else
            and_then (update_pool_rewards s) (\<lambda>s1.
            let admin_addr = get_admin_address in
            case staking_pool s1 admin_addr of
              None \<Rightarrow> Inl MISSING_DATA
            | Some pool \<Rightarrow>
               (case staker_info s1 user_addr of
                  None \<Rightarrow> Inl MISSING_DATA
                | Some info \<Rightarrow>
                    and_then (sub64 (staked_amount info) amount) (\<lambda>staked.
                    and_then
                      (if staked = 0 then
                         and_then (sub64 (total_stakers pool) 1) (\<lambda>stakers.
                         Inr (pool\<lparr> total_stakers := stakers \<rparr>))
                       else Inr pool) (\<lambda>pool1.
                    and_then (sub64 (total_staked pool1) amount) (\<lambda>staked_total.
                    case staking_events s1 admin_addr of
                      None \<Rightarrow> Inl MISSING_DATA
                    | Some events \<Rightarrow>
                        Inr (s1\<lparr> staking_pool := (staking_pool s1)(admin_addr \<mapsto>
                                   pool1\<lparr> total_staked := staked_total \<rparr>),
                                 staker_info := (staker_info s1)(user_addr \<mapsto>
                                   info\<lparr> staked_amount := staked,
                                     user_reward_per_token_paid :=
                                       accumulated_reward_per_token pool \<rparr>),
                                 staking_events := (staking_events s1)(admin_addr \<mapsto>
                                   events\<lparr> unstake_events := unstake_events events @
                                     [UnstakeEvent user_addr amount
                                        (now_seconds s1)] \<rparr>) \<rparr>)))))))"

definition claim_rewards_internal :: "world \<Rightarrow> address \<Rightarrow> world result" where
  "claim_rewards_internal s user_addr =
     (if staker_info s user_addr = None
        then Inl (Abort AfjpStaking E_NO_REWARDS)
      else
        and_then (update_pool_rewards s) (\<lambda>s1.
        and_then (calculate_rewards s1 user_addr) (\<lambda>reward_amount.
        if \<not> reward_amount > 0 then Inl (Abort AfjpStaking E_NO_REWARDS)
        else let admin_addr = get_admin_address in
        case staking_pool s1 admin_addr of
          None \<Rightarrow> Inl MISSING_DATA
        | Some pool \<Rightarrow>
           (case staker_info s1 user_addr of
              None \<Rightarrow> Inl MISSING_DATA
            | Some info \<Rightarrow>
                and_then (add64 (total_rewards_claimed info) reward_amount) (\<lambda>claimed.
                and_then (add64 (total_rewards_distributed pool) reward_amount)
                  (\<lambda>distributed.
                case staking_events s1 admin_addr of
                  None \<Rightarrow> Inl MISSING_DATA
                | Some events \<Rightarrow>
                    Inr (s1\<lparr> staking_pool := (staking_pool s1)(admin_addr \<mapsto>
                               pool\<lparr> total_rewards_distributed := distributed \<rparr>),
                             staker_info := (staker_info s1)(user_addr \<mapsto>
                               info\<lparr> total_rewards_claimed := claimed,
                                 user_reward_per_token_paid :=
                                   accumulated_reward_per_token pool \<rparr>),
                             staking_events := (staking_events s1)(admin_addr \<mapsto>
                               events\<lparr> claim_events := claim_events events @
                                 [ClaimEvent user_addr reward_amount
                                    (now_seconds s1)] \<rparr>) \<rparr>)))))))"

definition claim_rewards :: "world \<Rightarrow> address \<Rightarrow> world result" where
  "claim_rewards s user_addr = claim_rewards_internal s user_addr"

definition add_rewards :: "world \<Rightarrow> address \<Rightarrow> u64 \<Rightarrow> world result" where
  "add_rewards s admin_addr amount =
     (case staking_pool s admin_addr of
        None \<Rightarrow> Inl (Abort AfjpStaking staking_E_NOT_INITIALIZED)
      | Some pool \<Rightarrow>
          if pool_admin pool \<noteq> admin_addr
            then Inl (Abort AfjpStaking staking_E_NOT_ADMIN)
          else if total_staked pool > 0 then
            and_then (mul64 amount REWARD_PRECISION) (\<lambda>numerator.
            and_then (mul64 (total_staked pool) SECONDS_PER_YEAR) (\<lambda>denominator.
            and_then (div64 numerator denominator) (\<lambda>additional_rate.
            and_then (add64 (reward_rate_per_second pool) additional_rate) (\<lambda>rate.
            let max_rate = (MAX_APY * REWARD_PRECISION) div (10000 * SECONDS_PER_YEAR) in
            Inr (s\<lparr> staking_pool := (staking_pool s)(admin_addr \<mapsto>
                      pool\<lparr> reward_rate_per_second :=
                        (if rate > max_rate then max_rate else rate) \<rparr>) \<rparr>)))))
          else Inr s)"

section \<open>Module afjp\_vesting\<close>

definition vesting_E_NOT_INITIALIZED :: nat where "vesting_E_NOT_INITIALIZED = 1"
definition vesting_E_ALREADY_INITIALIZED :: nat where "vesting_E_ALREADY_INITIALIZED = 2"
definition vesting_E_INVALID_AMOUNT :: nat where "vesting_E_INVALID_AMOUNT = 6"
definition vesting_E_INSUFFICIENT_BALANCE :: nat where "vesting_E_INSUFFICIENT_BALANCE = 8"

definition VESTING_DURATION_SECONDS :: u64 where "VESTING_DURATION_SECONDS = 157680000"
definition CLIFF_DURATION_SECONDS :: u64 where "CLIFF_DURATION_SECONDS = 31536000"

definition vesting_initialize :: "world \<Rightarrow> address \<Rightarrow> world result" where
  "vesting_initialize s admin_addr =
     (if vesting_pool s admin_addr \<noteq> None
        then Inl (Abort AfjpVesting vesting_E_ALREADY_INITIALIZED)
      else if vesting_events s admin_addr \<noteq> None then Inl RESOURCE_ALREADY_EXISTS
      else Inr (s\<lparr> vesting_pool := (vesting_pool s)(admin_addr \<mapsto>
                     \<lparr> total_vested = 0, total_released = 0,
                       vesting_admin = admin_addr, schedule_count = 0 \<rparr>),
                   vesting_events := (vesting_events s)(admin_addr \<mapsto>
                     \<lparr> schedule_created_events = [], tokens_released_events = [],
                       schedule_revoked_events = [] \<rparr>) \<rparr>))"

definition create_vesting_schedule ::
  "world \<Rightarrow> address \<Rightarrow> address \<Rightarrow> u64 \<Rightarrow> world result" where
  "create_vesting_schedule s creator_addr beneficiary amount =
     (let current_time = now_seconds s in
      if \<not> amount > 0
        then Inl (Abort AfjpVesting vesting_E_INVALID_AMOUNT)
      else let admin_addr = get_admin_address in
      if vesting_pool s admin_addr = None
        then Inl (Abort AfjpVesting vesting_E_NOT_INITIALIZED)
      else if \<not> get_balance s creator_addr \<ge> amount
        then Inl (Abort AfjpVesting vesting_E_INSUFFICIENT_BALANCE)
      else
        and_then (coin_transfer (afjp_coins s) creator_addr admin_addr amount) (\<lambda>coins.
        and_then (add64 current_time CLIFF_DURATION_SECONDS) (\<lambda>cliff_time.
        and_then (add64 current_time VESTING_DURATION_SECONDS) (\<lambda>end_time.
        case vesting_pool s admin_addr of
          None \<Rightarrow> Inl MISSING_DATA
        | Some pool \<Rightarrow>
            and_then (add64 (total_vested pool) amount) (\<lambda>vested.
            and_then (add64 (schedule_count pool) 1) (\<lambda>schedules.
            case vesting_events s admin_addr of
              None \<Rightarrow> Inl MISSING_DATA
            | Some events \<Rightarrow>
                Inr (s\<lparr> afjp_coins := coins,
                        vesting_pool := (vesting_pool s)(admin_addr \<mapsto>
                          pool\<lparr> total_vested := vested, schedule_count := schedules \<rparr>),
                        vesting_events := (vesting_events s)(admin_addr \<mapsto>
                          events\<lparr> schedule_created_events :=
                            schedule_created_events events @
                            [ScheduleCreatedEvent beneficiary amount current_time
                               cliff_time end_time creator_addr] \<rparr>) \<rparr>)))))))"

definition release_vested_tokens :: "world \<Rightarrow> address \<Rightarrow> world result" where
  "release_vested_tokens s beneficiary_addr =
     (let admin_addr = get_admin_address in
      case vesting_pool s admin_addr of
        None \<Rightarrow> Inl MISSING_DATA
      | Some pool \<Rightarrow>
         (case vesting_events s admin_addr of
            None \<Rightarrow> Inl MISSING_DATA
          | Some events \<Rightarrow>
              Inr (s\<lparr> vesting_events := (vesting_events s)(admin_addr \<mapsto>
                        events\<lparr> tokens_released_events := tokens_released_events events @
                          [TokensReleasedEvent beneficiary_addr 0 (now_seconds s) 0] \<rparr>) \<rparr>)))"

definition calculate_vested_amount :: "address \<Rightarrow> u64" where
  "calculate_vested_amount beneficiary = 0"

definition get_releasable_amount :: "address \<Rightarrow> u64" where
  "get_releasable_amount beneficiary = 0"

definition has_vesting_schedule :: "address \<Rightarrow> bool" where
  "has_vesting_schedule beneficiary = False"

section \<open>Scenarios\<close>

text \<open>
  The framework entry points a test set-up uses besides the modules: registering a coin
  store, and the block clock moving forward.
\<close>

definition register_afjp :: "world \<Rightarrow> address \<Rightarrow> world" where
  "register_afjp s a = s\<lparr> afjp_coins := coin_register (afjp_coins s) a \<rparr>"

definition register_juventud :: "world \<Rightarrow> address \<Rightarrow> world" where
  "register_juventud s a = s\<lparr> juventud_coins := coin_register (juventud_coins s) a \<rparr>"

definition set_time :: "world \<Rightarrow> u64 \<Rightarrow> world" where
  "set_time s t = s\<lparr> now_seconds := t \<rparr>"

text \<open>The state a run commits; a run that aborts commits nothing.\<close>

definition committed :: "world result \<Rightarrow> world" where
  "committed r = (case r of Inr s \<Rightarrow> s | Inl e \<Rightarrow> genesis)"

definition user1 :: address where "user1 = Account 291"
definition user2 :: address where "user2 = Account 1110"

text \<open>
  All four modules initialised by the module address at time 0, coin stores registered
  for the module address and two users, and 10000 AFJP minted to each user.
\<close>

definition deployed :: "world result" where
  "deployed =
     and_then (token_initialize genesis afjp_crypto) (\<lambda>s.
     and_then (juventud_initialize s afjp_crypto) (\<lambda>s.
     and_then (staking_initialize s afjp_crypto) (\<lambda>s.
     and_then (vesting_initialize s afjp_crypto) (\<lambda>s.
     Inr (register_juventud (register_juventud
           (register_afjp (register_afjp (register_afjp s afjp_crypto) user1) user2)
           user1) user2)))))"

definition funded :: "world result" where
  "funded =
     and_then deployed (\<lambda>s.
     and_then (mint s afjp_crypto user1 10000) (\<lambda>s.
     mint s afjp_crypto user2 10000))"

definition funded_world :: world where
  "funded_world = committed funded"

text \<open>
  A pool value with a positive rate, one staker and 100 seconds since the last update: a
  value of the struct type, used to trace the accrual arithmetic by hand.
\<close>

definition pool_example :: StakingPool where
  "pool_example = \<lparr> total_staked = 1000, total_rewards_distributed = 0,
      reward_rate_per_second = 100, last_update_time = 0,
      accumulated_reward_per_token = 0, pool_admin = afjp_crypto, is_active = True,
      total_stakers = 1 \<rparr>"

definition staker_example :: StakerInfo where
  "staker_example = \<lparr> staked_amount = 1000, reward_debt = 0, last_stake_time = 0,
      total_rewards_claimed = 0, user_reward_per_token_paid = 0 \<rparr>"

definition accrual_world :: world where
  "accrual_world = funded_world\<lparr> now_seconds := 100,
      staking_pool := [afjp_crypto \<mapsto> pool_example],
      staker_info := [user1 \<mapsto> staker_example] \<rparr>"

text \<open>The staker of the example pool claims.\<close>

definition claimed_world :: world where
  "claimed_world = committed (claim_rewards accrual_world user1)"

text \<open>
  Coin stores holding value in a world where no module was ever initialised: a state of
  the right type for \<open>transfer\<close>, which reads the coin stores and the event store only.
\<close>

definition uninitialized_world :: world where
  "uninitialized_world = genesis\<lparr> afjp_coins := [user1 \<mapsto> 500, user2 \<mapsto> 0] \<rparr>"

text \<open>User 1 stakes 1000 at time 0; then the clock shows 100.\<close>

definition staked_world :: world where
  "staked_world = committed (stake_tokens funded_world user1 1000)"

definition staked_world_later :: world where
  "staked_world_later = set_time staked_world 100"

definition unstaked_world :: world where
  "unstaked_world = committed (unstake_tokens staked_world user1 1000)"

text \<open>
  Scenario C: user 1 creates a vesting schedule of 5000 for user 2 at time 0; user 2
  asks for a release at once, long before the cliff.
\<close>

definition vested_world :: world where
  "vested_world = committed (create_vesting_schedule funded_world user1 user2 5000)"

definition released_world :: world where
  "released_world = committed (release_vested_tokens vested_world user2)"

text \<open>
  Scenario D: user 1 converts 100 AFJP at the initial rate 10; then spends Juventud
  tokens on a 10 percent discount of a rental of 1000.
\<close>

definition converted_world :: world where
  "converted_world = committed (burn_afjp_for_juventud funded_world user1 100)"

definition discounted_world :: world where
  "discounted_world = committed (apply_rental_discount converted_world user1 1000 10)"


definition returned_world :: world where
  "returned_world = committed (stake_tokens unstaked_world user1 1000)"

text \<open>
  What the specification words for \<open>add_reward_budget\<close>: the update step first, then
  the change of rate. It is set beside \<open>add_rewards\<close> to compare the two.
\<close>

definition add_reward_budget_spec :: "world \<Rightarrow> address \<Rightarrow> u64 \<Rightarrow> world result" where
  "add_reward_budget_spec s admin_addr amount =
     and_then (update_pool_rewards s) (\<lambda>s1. add_rewards s1 admin_addr amount)"

text \<open>
  Sequences of the primary token's three operations, run in order; the first abort ends
  the run.
\<close>

datatype token_op =
    Mint address address u64
  | Burn address u64
  | Transfer address address u64

fun apply_token_op :: "world \<Rightarrow> token_op \<Rightarrow> world result" where
  "apply_token_op s (Mint admin_addr recipient amount) = mint s admin_addr recipient amount"
| "apply_token_op s (Burn account_addr amount) = burn s account_addr amount"
| "apply_token_op s (Transfer from_addr to amount) = transfer s from_addr to amount"

fun apply_token_ops :: "world \<Rightarrow> token_op list \<Rightarrow> world result" where
  "apply_token_ops s [] = Inr s"
| "apply_token_ops s (x # xs) = and_then (apply_token_op s x) (\<lambda>s'. apply_token_ops s' xs)"

text \<open>
  The supply invariant of the primary token, written without subtraction: the balances
  and the burned amount add up to the minted total. Capabilities exist at the module
  address only, as \<open>coin::initialize\<close> enforces.
\<close>

definition afjp_accounted :: "world \<Rightarrow> bool" where
  "afjp_accounted s \<longleftrightarrow>
     finite (dom (afjp_coins s)) \<and> token_capabilities s \<subseteq> {afjp_crypto} \<and>
     sum_balances (afjp_coins s) + get_burned_amount s = get_total_supply s"

section \<open>The states the code can reach\<close>

text \<open>
  A transaction calls one entry function of the four modules, or one of the framework
  entry points that touch the modelled state: registering a coin store, transferring
  coins directly, and the block clock moving forward. Move lets only the declaring
  module write a resource, so these calls are all that can change the state. A state is
  reachable when a sequence of committed calls leads to it from the empty state.
\<close>

datatype call =
    TokenInitialize address
  | MintCall address address u64
  | BurnCall address u64
  | TransferCall address address u64
  | JuventudInitialize address
  | BurnAfjpForJuventud address u64
  | ApplyRentalDiscount address u64 u64
  | UpdateExchangeRate address u64
  | StakingInitialize address
  | StakeTokens address u64
  | UnstakeTokens address u64
  | ClaimRewards address
  | AddRewards address u64
  | VestingInitialize address
  | CreateVestingSchedule address address u64
  | ReleaseVestedTokens address
  | RegisterAfjp address
  | RegisterJuventud address
  | CoinTransferAfjp address address u64
  | CoinTransferJuventud address address u64
  | AdvanceClock u64

fun execute :: "world \<Rightarrow> call \<Rightarrow> world result" where
  "execute s (TokenInitialize a) = token_initialize s a"
| "execute s (MintCall a recipient amount) = mint s a recipient amount"
| "execute s (BurnCall a amount) = burn s a amount"
| "execute s (TransferCall a to amount) = transfer s a to amount"
| "execute s (JuventudInitialize a) = juventud_initialize s a"
| "execute s (BurnAfjpForJuventud a amount) = burn_afjp_for_juventud s a amount"
| "execute s (ApplyRentalDiscount a rental percentage) =
     apply_rental_discount s a rental percentage"
| "execute s (UpdateExchangeRate a rate) = update_exchange_rate s a rate"
| "execute s (StakingInitialize a) = staking_initialize s a"
| "execute s (StakeTokens a amount) = stake_tokens s a amount"
| "execute s (UnstakeTokens a amount) = unstake_tokens s a amount"
| "execute s (ClaimRewards a) = claim_rewards s a"
| "execute s (AddRewards a amount) = add_rewards s a amount"
| "execute s (VestingInitialize a) = vesting_initialize s a"
| "execute s (CreateVestingSchedule a beneficiary amount) =
     create_vesting_schedule s a beneficiary amount"
| "execute s (ReleaseVestedTokens a) = release_vested_tokens s a"
| "execute s (RegisterAfjp a) = Inr (register_afjp s a)"
| "execute s (RegisterJuventud a) = Inr (register_juventud s a)"
| "execute s (CoinTransferAfjp a to amount) =
     and_then (coin_transfer (afjp_coins s) a to amount) (\<lambda>coins.
     Inr (s\<lparr> afjp_coins := coins \<rparr>))"
| "execute s (CoinTransferJuventud a to amount) =
     and_then (coin_transfer (juventud_coins s) a to amount) (\<lambda>coins.
     Inr (s\<lparr> juventud_coins := coins \<rparr>))"
| "execute s (AdvanceClock seconds) =
     and_then (add64 (now_seconds s) seconds) (\<lambda>t. Inr (set_time s t))"

fun execute_all :: "world \<Rightarrow> call list \<Rightarrow> world result" where
  "execute_all s [] = Inr s"
| "execute_all s (c # cs) = and_then (execute s c) (\<lambda>s'. execute_all s' cs)"

inductive reachable :: "world \<Rightarrow> bool" where
  reachable_genesis: "reachable genesis"
| reachable_step: "reachable s \<Longrightarrow> execute s c = Inr s' \<Longrightarrow> reachable s'"




section \<open>Auxiliary notions for the proofs\<close>

text \<open>
  The accumulator value that \<open>update_pool_rewards\<close> stores and that
  \<open>calculate_rewards\<close> projects: both functions compute it with the same three checked
  operations.
\<close>

definition projected_accumulator :: "StakingPool \<Rightarrow> u64 \<Rightarrow> u64 result" where
  "projected_accumulator pool current_time =
     (if total_staked pool > 0 \<and> current_time > last_update_time pool then
        and_then (sub64 current_time (last_update_time pool)) (\<lambda>time_elapsed.
        and_then (mul64 time_elapsed (reward_rate_per_second pool)) (\<lambda>reward_per_token.
        add64 (accumulated_reward_per_token pool) reward_per_token))
      else Inr (accumulated_reward_per_token pool))"

section \<open>Basic facts\<close>

lemmas arith_defs = add64_def sub64_def mul64_def div64_def MAX_U64_def

lemmas coin_defs = coin_balance_def coin_register_def coin_withdraw_def coin_deposit_def
  coin_transfer_def

lemmas setup_defs = register_afjp_def register_juventud_def set_time_def user1_def user2_def
  genesis_def token_initialize_def juventud_initialize_def staking_initialize_def
  vesting_initialize_def committed_def deployed_def funded_def funded_world_def mint_def
  get_admin_address_def

lemmas staking_consts = SECONDS_PER_YEAR_def BASE_APY_def MAX_APY_def MIN_STAKE_AMOUNT_def
  REWARD_PRECISION_def

lemma and_then_Inr_iff: "and_then m f = Inr y \<longleftrightarrow> (\<exists>x. m = Inr x \<and> f x = Inr y)"
  by (cases m) (simp_all add: and_then_def)

lemma and_then_Inr [simp]: "and_then (Inr x) f = f x"
  by (simp add: and_then_def)

lemma and_then_Inl [simp]: "and_then (Inl e) f = Inl e"
  by (simp add: and_then_def)

text \<open>
  The funded state is what the set-up commits: every step of it succeeds. The rate that
  \<open>initialize\<close> stores is \<open>1200 * 1000000 div (10000 * 31536000) = 0\<close>.
\<close>

lemma funded_ok: "funded = Inr funded_world"
  by (simp add: and_then_def arith_defs coin_defs setup_defs)

lemma funded_world_fields:
  "afjp_coins funded_world = [afjp_crypto \<mapsto> 0, user1 \<mapsto> 10000, user2 \<mapsto> 10000]"
  "juventud_coins funded_world = [user1 \<mapsto> 0, user2 \<mapsto> 0]"
  "staking_events funded_world =
     [afjp_crypto \<mapsto> \<lparr> stake_events = [], unstake_events = [], claim_events = [] \<rparr>]"
  "staking_pool funded_world =
     [afjp_crypto \<mapsto> \<lparr> total_staked = 0, total_rewards_distributed = 0,
        reward_rate_per_second = 0, last_update_time = 0,
        accumulated_reward_per_token = 0, pool_admin = afjp_crypto, is_active = True,
        total_stakers = 0 \<rparr>]"
  "staker_info funded_world = Map.empty"
  "now_seconds funded_world = 0"
  by (simp_all add: and_then_def arith_defs coin_defs setup_defs staking_consts)

lemma uninitialized_world_fields:
  "afjp_coins uninitialized_world = [user1 \<mapsto> 500, user2 \<mapsto> 0]"
  "token_events uninitialized_world = Map.empty"
  "token_capabilities uninitialized_world = {}"
  by (simp_all add: uninitialized_world_def genesis_def)

lemma users_distinct [simp]: "user1 \<noteq> user2" "user2 \<noteq> user1"
  "user1 \<noteq> afjp_crypto" "user2 \<noteq> afjp_crypto" "afjp_crypto \<noteq> user1" "afjp_crypto \<noteq> user2"
  by (simp_all add: user1_def user2_def)

lemma funded_world_token:
  "token_capabilities funded_world = {afjp_crypto}"
  "token_info funded_world =
     [afjp_crypto \<mapsto> \<lparr> total_supply = 20000, burned_amount = 0, admin = afjp_crypto \<rparr>]"
  "token_events funded_world =
     [afjp_crypto \<mapsto> \<lparr> mint_events = [MintEvent 10000 user1 0, MintEvent 10000 user2 0],
        burn_events = [], transfer_events = [] \<rparr>]"
  by (simp_all add: and_then_def arith_defs coin_defs setup_defs)

section \<open>The staking update step\<close>

lemma update_pool_rewards_none:
  "staking_pool s afjp_crypto = None \<Longrightarrow> update_pool_rewards s = Inr s"
  by (simp add: update_pool_rewards_def get_admin_address_def)

lemma update_pool_rewards_some:
  "staking_pool s afjp_crypto = Some pool \<Longrightarrow>
   update_pool_rewards s =
     and_then (projected_accumulator pool (now_seconds s)) (\<lambda>acc.
       Inr (s\<lparr> staking_pool := (staking_pool s)(afjp_crypto \<mapsto>
              pool\<lparr> accumulated_reward_per_token := acc,
                    last_update_time := now_seconds s \<rparr>) \<rparr>))"
  by (simp add: update_pool_rewards_def projected_accumulator_def get_admin_address_def Let_def
      and_then_def split: sum.splits)

lemma calculate_rewards_some:
  "staker_info s h = Some info \<Longrightarrow> staking_pool s afjp_crypto = Some pool \<Longrightarrow>
   calculate_rewards s h =
     and_then (projected_accumulator pool (now_seconds s)) (\<lambda>acc.
     and_then (sub64 acc (user_reward_per_token_paid info)) (\<lambda>d.
     and_then (mul64 (staked_amount info) d) (\<lambda>p. div64 p REWARD_PRECISION)))"
  by (simp add: calculate_rewards_def projected_accumulator_def get_admin_address_def Let_def)

lemma projected_accumulator_updated [simp]:
  "projected_accumulator
     (pool\<lparr> accumulated_reward_per_token := acc, last_update_time := t \<rparr>) t = Inr acc"
  by (simp add: projected_accumulator_def)

lemma update_pool_rewards_frame:
  assumes "update_pool_rewards s = Inr s1"
  shows "s1 = s\<lparr> staking_pool := staking_pool s1 \<rparr>"
proof (cases "staking_pool s afjp_crypto")
  case None
  with assms show ?thesis by (simp add: update_pool_rewards_none)
next
  case (Some pool)
  with assms show ?thesis
    by (auto simp: update_pool_rewards_some [OF Some] and_then_Inr_iff)
qed

lemma update_pool_rewards_fields:
  assumes "update_pool_rewards s = Inr s1"
  shows "staker_info s1 = staker_info s" "afjp_coins s1 = afjp_coins s"
    "juventud_coins s1 = juventud_coins s" "staking_events s1 = staking_events s"
    "now_seconds s1 = now_seconds s"
  by (subst update_pool_rewards_frame [OF assms], simp)+

lemma update_pool_rewards_accrues:
  assumes "staking_pool s afjp_crypto = Some pool"
    and "0 < total_staked pool"
    and "last_update_time pool < now_seconds s"
    and "accumulated_reward_per_token pool +
           (now_seconds s - last_update_time pool) * reward_rate_per_second pool \<le> MAX_U64"
  shows "update_pool_rewards s =
           Inr (s\<lparr> staking_pool := (staking_pool s)(afjp_crypto \<mapsto>
                  pool\<lparr> accumulated_reward_per_token :=
                           accumulated_reward_per_token pool +
                           (now_seconds s - last_update_time pool) *
                           reward_rate_per_second pool,
                        last_update_time := now_seconds s \<rparr>) \<rparr>)"
  using assms
  by (simp add: update_pool_rewards_some projected_accumulator_def add64_def sub64_def
      mul64_def)

section \<open>Queries and claims of staking rewards\<close>

lemma update_pool_rewards_calculate:
  assumes "update_pool_rewards s = Inr s1"
  shows "calculate_rewards s1 h = calculate_rewards s h"
proof (cases "staking_pool s afjp_crypto")
  case None
  with assms show ?thesis by (simp add: update_pool_rewards_none)
next
  case (Some pool)
  from assms obtain acc where acc: "projected_accumulator pool (now_seconds s) = Inr acc"
    and s1: "s1 = s\<lparr> staking_pool := (staking_pool s)(afjp_crypto \<mapsto>
              pool\<lparr> accumulated_reward_per_token := acc,
                    last_update_time := now_seconds s \<rparr>) \<rparr>"
    by (auto simp: update_pool_rewards_some [OF Some] and_then_Inr_iff)
  show ?thesis
  proof (cases "staker_info s h")
    case None
    then show ?thesis by (simp add: calculate_rewards_def s1)
  next
    case (Some info)
    have "calculate_rewards s1 h =
        and_then (sub64 acc (user_reward_per_token_paid info)) (\<lambda>d.
        and_then (mul64 (staked_amount info) d) (\<lambda>p. div64 p REWARD_PRECISION))"
      by (subst calculate_rewards_some [where info = info and
            pool = "pool\<lparr> accumulated_reward_per_token := acc,
                         last_update_time := now_seconds s \<rparr>"])
         (simp_all add: s1 Some)
    moreover have "calculate_rewards s h =
        and_then (sub64 acc (user_reward_per_token_paid info)) (\<lambda>d.
        and_then (mul64 (staked_amount info) d) (\<lambda>p. div64 p REWARD_PRECISION))"
      by (simp add: calculate_rewards_some [OF Some \<open>staking_pool s afjp_crypto = Some pool\<close>] acc)
    ultimately show ?thesis by simp
  qed
qed

lemma update_pool_rewards_abort:
  assumes "update_pool_rewards s = Inl e" and "staker_info s h = Some info"
  shows "calculate_rewards s h = Inl e"
proof (cases "staking_pool s afjp_crypto")
  case None
  with assms show ?thesis by (simp add: update_pool_rewards_none)
next
  case (Some pool)
  from assms(1) have "projected_accumulator pool (now_seconds s) = Inl e"
    by (cases "projected_accumulator pool (now_seconds s)")
       (simp_all add: update_pool_rewards_some [OF Some])
  then show ?thesis
    by (simp add: calculate_rewards_some [OF assms(2) Some])
qed


lemma calculate_rewards_no_staker:
  "staker_info s h = None \<Longrightarrow> calculate_rewards s h = Inr 0"
  by (simp add: calculate_rewards_def)

lemma calculate_rewards_reads:
  assumes "staker_info t h = staker_info s h"
    and "staking_pool t afjp_crypto = staking_pool s afjp_crypto"
    and "now_seconds t = now_seconds s"
  shows "calculate_rewards t h = calculate_rewards s h"
  using assms
  by (simp add: calculate_rewards_def get_admin_address_def Let_def split: option.splits)

lemma claim_rewards_zero:
  assumes "calculate_rewards s h = Inr 0"
  shows "claim_rewards s h = Inl (Abort AfjpStaking E_NO_REWARDS)"
proof (cases "staker_info s h")
  case None
  then show ?thesis by (simp add: claim_rewards_def claim_rewards_internal_def)
next
  case (Some info)
  show ?thesis
  proof (cases "update_pool_rewards s")
    case (Inl e)
    from update_pool_rewards_abort [OF Inl Some] assms show ?thesis by simp
  next
    case (Inr s1)
    with assms update_pool_rewards_calculate [OF Inr, of h] Some show ?thesis
      by (simp add: claim_rewards_def claim_rewards_internal_def)
  qed
qed

lemma claim_rewards_abort:
  assumes "calculate_rewards s h = Inl e"
  shows "claim_rewards s h = Inl e"
proof (cases "staker_info s h")
  case None
  with assms show ?thesis by (simp add: calculate_rewards_no_staker)
next
  case (Some info)
  show ?thesis
  proof (cases "update_pool_rewards s")
    case (Inl e')
    from update_pool_rewards_abort [OF Inl Some] assms have "e' = e" by simp
    with Inl Some show ?thesis
      by (simp add: claim_rewards_def claim_rewards_internal_def)
  next
    case (Inr s1)
    with assms update_pool_rewards_calculate [OF Inr, of h] Some show ?thesis
      by (simp add: claim_rewards_def claim_rewards_internal_def)
  qed
qed

lemma update_pool_rewards_pool:
  assumes "update_pool_rewards s = Inr s1" and "staking_pool s afjp_crypto = Some pool"
  shows "\<exists>pool1. staking_pool s1 afjp_crypto = Some pool1 \<and>
           total_rewards_distributed pool1 = total_rewards_distributed pool \<and>
           total_staked pool1 = total_staked pool \<and>
           total_stakers pool1 = total_stakers pool \<and>
           is_active pool1 = is_active pool \<and>
           reward_rate_per_second pool1 = reward_rate_per_second pool \<and>
           last_update_time pool1 = now_seconds s \<and>
           projected_accumulator pool (now_seconds s) =
             Inr (accumulated_reward_per_token pool1)"
  using assms by (auto simp: update_pool_rewards_some and_then_Inr_iff)

lemma claim_rewards_success:
  assumes ok: "claim_rewards s h = Inr s'"
  shows "\<exists>reward info info' pool pool' events events'.
           calculate_rewards s h = Inr reward \<and> 0 < reward \<and>
           staker_info s h = Some info \<and> staker_info s' h = Some info' \<and>
           total_rewards_claimed info' = total_rewards_claimed info + reward \<and>
           staking_pool s afjp_crypto = Some pool \<and>
           staking_pool s' afjp_crypto = Some pool' \<and>
           total_rewards_distributed pool' = total_rewards_distributed pool + reward \<and>
           staking_events s afjp_crypto = Some events \<and>
           staking_events s' afjp_crypto = Some events' \<and>
           claim_events events' = claim_events events @ [ClaimEvent h reward (now_seconds s)]"
proof -
  from ok obtain s1 reward where u: "update_pool_rewards s = Inr s1"
    and c: "calculate_rewards s1 h = Inr reward"
    by (auto simp: claim_rewards_def claim_rewards_internal_def and_then_Inr_iff
        split: if_splits)
  note f = update_pool_rewards_fields [OF u]
  from ok u obtain pool where p: "staking_pool s afjp_crypto = Some pool"
    by (cases "staking_pool s afjp_crypto")
       (auto simp: update_pool_rewards_none claim_rewards_def claim_rewards_internal_def
          get_admin_address_def c split: if_splits)
  from update_pool_rewards_pool [OF u p] obtain pool1
    where p1: "staking_pool s1 afjp_crypto = Some pool1"
      and d: "total_rewards_distributed pool1 = total_rewards_distributed pool"
    by blast
  from c have c0: "calculate_rewards s h = Inr reward"
    by (simp add: update_pool_rewards_calculate [OF u])
  from ok u c p1 d c0 p show ?thesis
    by (auto simp: claim_rewards_def claim_rewards_internal_def get_admin_address_def Let_def
        and_then_Inr_iff add64_def f split: if_splits option.splits)
qed

lemma claim_rewards_progress:
  assumes c: "calculate_rewards s h = Inr reward" and pos: "0 < reward"
    and i: "staker_info s h = Some info"
    and p: "staking_pool s afjp_crypto = Some pool"
    and e: "staking_events s afjp_crypto = Some events"
    and b1: "total_rewards_claimed info + reward \<le> MAX_U64"
    and b2: "total_rewards_distributed pool + reward \<le> MAX_U64"
  shows "\<exists>s'. claim_rewards s h = Inr s'"
proof (cases "update_pool_rewards s")
  case (Inl e')
  from update_pool_rewards_abort [OF Inl i] c show ?thesis by simp
next
  case (Inr s1)
  note f = update_pool_rewards_fields [OF Inr]
  from update_pool_rewards_pool [OF Inr p] obtain pool1
    where p1: "staking_pool s1 afjp_crypto = Some pool1"
      and d: "total_rewards_distributed pool1 = total_rewards_distributed pool"
    by blast
  from c have c1: "calculate_rewards s1 h = Inr reward"
    by (simp add: update_pool_rewards_calculate [OF Inr])
  from Inr c1 pos i p1 d e b1 b2 show ?thesis
    by (simp add: claim_rewards_def claim_rewards_internal_def get_admin_address_def Let_def
        add64_def f)
qed

lemma accrual_world_calculate: "calculate_rewards accrual_world user1 = Inr 10"
  by (simp add: accrual_world_def pool_example_def staker_example_def calculate_rewards_def
      get_admin_address_def and_then_def arith_defs staking_consts user1_def)

lemma accrual_world_claim:
  "claim_rewards accrual_world user1 =
     Inr (accrual_world\<lparr>
       staking_pool := [afjp_crypto \<mapsto> pool_example\<lparr>
         accumulated_reward_per_token := 10000, last_update_time := 100,
         total_rewards_distributed := 10 \<rparr>],
       staker_info := [user1 \<mapsto> staker_example\<lparr>
         total_rewards_claimed := 10, user_reward_per_token_paid := 10000 \<rparr>],
       staking_events := [afjp_crypto \<mapsto>
         \<lparr> stake_events = [], unstake_events = [],
           claim_events = [ClaimEvent user1 10 100] \<rparr>] \<rparr>)"
  by (simp add: accrual_world_def pool_example_def staker_example_def calculate_rewards_def
      claim_rewards_def claim_rewards_internal_def update_pool_rewards_def
      funded_world_fields get_admin_address_def and_then_def arith_defs staking_consts
      user1_def)

lemma claimed_world_eq:
  "claimed_world = accrual_world\<lparr>
       staking_pool := [afjp_crypto \<mapsto> pool_example\<lparr>
         accumulated_reward_per_token := 10000, last_update_time := 100,
         total_rewards_distributed := 10 \<rparr>],
       staker_info := [user1 \<mapsto> staker_example\<lparr>
         total_rewards_claimed := 10, user_reward_per_token_paid := 10000 \<rparr>],
       staking_events := [afjp_crypto \<mapsto>
         \<lparr> stake_events = [], unstake_events = [],
           claim_events = [ClaimEvent user1 10 100] \<rparr>] \<rparr>"
  by (simp add: claimed_world_def committed_def accrual_world_claim)

lemma funded_world_calculate: "calculate_rewards funded_world user1 = Inr 0"
  by (simp add: calculate_rewards_def funded_world_fields)

lemma accrual_world_fields:
  "afjp_coins accrual_world = afjp_coins funded_world"
  "juventud_coins accrual_world = juventud_coins funded_world"
  "staking_pool accrual_world = [afjp_crypto \<mapsto> pool_example]"
  "staker_info accrual_world = [user1 \<mapsto> staker_example]"
  "staking_events accrual_world = staking_events funded_world"
  "now_seconds accrual_world = 100"
  by (simp_all add: accrual_world_def)

lemma claimed_world_fields:
  "afjp_coins claimed_world = afjp_coins funded_world"
  "staking_pool claimed_world = [afjp_crypto \<mapsto> pool_example\<lparr>
         accumulated_reward_per_token := 10000, last_update_time := 100,
         total_rewards_distributed := 10 \<rparr>]"
  "staker_info claimed_world = [user1 \<mapsto> staker_example\<lparr>
         total_rewards_claimed := 10, user_reward_per_token_paid := 10000 \<rparr>]"
  by (simp_all add: claimed_world_eq accrual_world_fields)

lemma accrual_world_claimed: "claim_rewards accrual_world user1 = Inr claimed_world"
  by (simp add: accrual_world_claim claimed_world_eq)

lemma funded_world_update:
  "update_pool_rewards funded_world = Inr (committed (update_pool_rewards funded_world))"
  by (simp add: update_pool_rewards_def funded_world_fields get_admin_address_def committed_def)

lemma funded_world_update_calculate:
  "calculate_rewards (committed (update_pool_rewards funded_world)) user1 = Inr 0"
  using update_pool_rewards_calculate [OF funded_world_update, of user1]
  by (simp add: funded_world_calculate)

text \<open>
  C7. \<open>calculate_rewards\<close> is a function of the state alone and returns a value only, so
  two calls on the same state agree and nothing is stored; it reads the staker's record,
  the pool at the module address and the clock, and agrees on any two states that agree
  on these. Its value is the amount a claim made on that state settles: a committed
  claim adds exactly that (positive) value to \<open>total_rewards_claimed\<close> and
  \<open>total_rewards_distributed\<close> and reports it in the \<open>ClaimEvent\<close>; when the query
  returns 0 the claim aborts with \<open>E_NO_REWARDS\<close>; when the query aborts the claim aborts
  alike; and a positive value is claimed whenever the two counters have room for it.
\<close>

theorem calculate_rewards_is_claimed_amount:
  "(claim_rewards s h = Inr s' \<longrightarrow>
      (\<exists>reward info info' pool pool' events events'.
         calculate_rewards s h = Inr reward \<and> 0 < reward \<and>
         staker_info s h = Some info \<and> staker_info s' h = Some info' \<and>
         total_rewards_claimed info' = total_rewards_claimed info + reward \<and>
         staking_pool s afjp_crypto = Some pool \<and>
         staking_pool s' afjp_crypto = Some pool' \<and>
         total_rewards_distributed pool' = total_rewards_distributed pool + reward \<and>
         staking_events s afjp_crypto = Some events \<and>
         staking_events s' afjp_crypto = Some events' \<and>
         claim_events events' =
           claim_events events @ [ClaimEvent h reward (now_seconds s)])) \<and>
   (calculate_rewards s h = Inr 0 \<longrightarrow>
      claim_rewards s h = Inl (Abort AfjpStaking E_NO_REWARDS)) \<and>
   (\<forall>e. calculate_rewards s h = Inl e \<longrightarrow> claim_rewards s h = Inl e) \<and>
   (\<forall>reward info pool events.
      calculate_rewards s h = Inr reward \<and> 0 < reward \<and>
      staker_info s h = Some info \<and> staking_pool s afjp_crypto = Some pool \<and>
      staking_events s afjp_crypto = Some events \<and>
      total_rewards_claimed info + reward \<le> MAX_U64 \<and>
      total_rewards_distributed pool + reward \<le> MAX_U64 \<longrightarrow>
      (\<exists>s'. claim_rewards s h = Inr s')) \<and>
   (\<forall>t. staker_info t h = staker_info s h \<and>
      staking_pool t afjp_crypto = staking_pool s afjp_crypto \<and>
      now_seconds t = now_seconds s \<longrightarrow>
      calculate_rewards t h = calculate_rewards s h)"
  using claim_rewards_success [of s h s'] claim_rewards_zero [of s h]
    claim_rewards_abort [of s h] claim_rewards_progress [of s h]
    calculate_rewards_reads [of _ h s]
  by blast

text \<open>
  Witness for C7: on the example pool the query returns 10 and the claim records 10; on
  the funded state the query returns 0 and the claim aborts with \<open>E_NO_REWARDS\<close>.
\<close>

theorem calculate_rewards_is_claimed_amount_witness:
  "calculate_rewards accrual_world user1 = Inr 10 \<and>
   claim_rewards accrual_world user1 = Inr claimed_world \<and>
   map_option total_rewards_claimed (staker_info claimed_world user1) = Some 10 \<and>
   map_option total_rewards_claimed (staker_info accrual_world user1) = Some 0 \<and>
   calculate_rewards funded_world user1 = Inr 0 \<and>
   claim_rewards funded_world user1 = Inl (Abort AfjpStaking E_NO_REWARDS)"
proof -
  note t1 = calculate_rewards_is_claimed_amount [of accrual_world user1 claimed_world,
      THEN conjunct1, rule_format, OF accrual_world_claimed]
  note t2 = calculate_rewards_is_claimed_amount [of funded_world user1,
      THEN conjunct2, THEN conjunct1, rule_format, OF funded_world_calculate]
  from t1 obtain reward info info' where
    "calculate_rewards accrual_world user1 = Inr reward"
    "staker_info accrual_world user1 = Some info"
    "staker_info claimed_world user1 = Some info'"
    "total_rewards_claimed info' = total_rewards_claimed info + reward"
    by blast
  then have "map_option total_rewards_claimed (staker_info claimed_world user1) = Some 10"
    by (auto simp: accrual_world_calculate accrual_world_fields staker_example_def)
  with t2 show ?thesis
    by (simp add: accrual_world_calculate accrual_world_claimed funded_world_calculate
        accrual_world_fields staker_example_def)
qed

section \<open>The primary token\<close>

text \<open>
  C10. \<open>transfer\<close> has no initialisation check: it never aborts with the token module's
  \<open>E_NOT_INITIALIZED\<close>, whatever the state. Whenever the amount is positive, the sender
  holds it and the recipient has a coin store with room for it, the coin transfer is
  performed; a \<open>TransferEvent\<close> is appended exactly when the event store exists at the
  module address, and otherwise nothing but the coin stores changes.
\<close>

theorem transfer_needs_no_initialization:
  "transfer s from_addr to amount \<noteq> Inl (Abort AfjpToken token_E_NOT_INITIALIZED) \<and>
   (0 < amount \<and> amount \<le> get_balance s from_addr \<and> afjp_coins s to = Some w \<and>
    (if to = from_addr then w else w + amount) \<le> MAX_U64 \<longrightarrow>
    (\<exists>s'. transfer s from_addr to amount = Inr s' \<and>
       get_balance s' from_addr =
         (if to = from_addr then w else get_balance s from_addr - amount) \<and>
       get_balance s' to = (if to = from_addr then w else w + amount) \<and>
       (\<forall>a. a \<noteq> from_addr \<and> a \<noteq> to \<longrightarrow> afjp_coins s' a = afjp_coins s a) \<and>
       (case token_events s afjp_crypto of
          None \<Rightarrow> s' = s\<lparr> afjp_coins := afjp_coins s' \<rparr>
        | Some events \<Rightarrow>
            s' = s\<lparr> afjp_coins := afjp_coins s',
                    token_events := (token_events s)(afjp_crypto \<mapsto>
                      events\<lparr> transfer_events := transfer_events events @
                        [TransferEvent amount from_addr to (now_seconds s)] \<rparr>) \<rparr>)))"
  by (auto simp: transfer_def and_then_def arith_defs coin_defs get_balance_def
      get_admin_address_def token_E_NOT_INITIALIZED_def token_E_INVALID_AMOUNT_def
      token_E_INSUFFICIENT_BALANCE_def Let_def split: option.splits if_splits)

text \<open>
  Witness for C10: in a world where no module was initialised and user 1 holds 500, a
  transfer of 300 to user 2 commits, moves the coins and changes nothing else; in the
  funded state the same transfer commits and appends the event.
\<close>

theorem transfer_needs_no_initialization_witness:
  "token_capabilities uninitialized_world = {} \<and>
   (\<exists>s'. transfer uninitialized_world user1 user2 300 = Inr s' \<and>
      get_balance s' user1 = 200 \<and> get_balance s' user2 = 300 \<and>
      s' = uninitialized_world\<lparr> afjp_coins := afjp_coins s' \<rparr>) \<and>
   (\<exists>s'. transfer funded_world user1 user2 300 = Inr s' \<and>
      get_balance s' user1 = 9700 \<and> get_balance s' user2 = 10300 \<and>
      map_option transfer_events (token_events s' afjp_crypto) =
        Some [TransferEvent 300 user1 user2 0])"
proof -
  have pre: "0 < (300::nat) \<and> 300 \<le> get_balance uninitialized_world user1 \<and>
      afjp_coins uninitialized_world user2 = Some 0 \<and>
      (if user2 = user1 then 0 else 0 + 300) \<le> MAX_U64"
    by (simp add: get_balance_def coin_balance_def uninitialized_world_fields MAX_U64_def)
  have pre': "0 < (300::nat) \<and> 300 \<le> get_balance funded_world user1 \<and>
      afjp_coins funded_world user2 = Some 10000 \<and>
      (if user2 = user1 then 10000 else 10000 + 300) \<le> MAX_U64"
    by (simp add: get_balance_def coin_balance_def funded_world_fields MAX_U64_def)
  from transfer_needs_no_initialization [of uninitialized_world user1 user2 300 0,
      THEN conjunct2, rule_format, OF pre]
  have 1: "\<exists>s'. transfer uninitialized_world user1 user2 300 = Inr s' \<and>
      get_balance s' user1 = 200 \<and> get_balance s' user2 = 300 \<and>
      s' = uninitialized_world\<lparr> afjp_coins := afjp_coins s' \<rparr>"
    by (auto simp: uninitialized_world_fields get_balance_def coin_balance_def)
  from transfer_needs_no_initialization [of funded_world user1 user2 300 10000,
      THEN conjunct2, rule_format, OF pre']
  obtain s' where t: "transfer funded_world user1 user2 300 = Inr s'"
    and b: "get_balance s' user1 = 9700" "get_balance s' user2 = 10300"
    and e: "s' = funded_world\<lparr> afjp_coins := afjp_coins s',
                    token_events := (token_events funded_world)(afjp_crypto \<mapsto>
                      \<lparr> mint_events = [MintEvent 10000 user1 0, MintEvent 10000 user2 0],
                        burn_events = [], transfer_events = [] \<rparr>
                      \<lparr> transfer_events := [] @
                        [TransferEvent 300 user1 user2 (now_seconds funded_world)] \<rparr>) \<rparr>"
    by (auto simp: funded_world_fields funded_world_token get_balance_def coin_balance_def)
  have "map_option transfer_events (token_events s' afjp_crypto) =
        Some [TransferEvent 300 user1 user2 0]"
    by (subst e) (simp add: funded_world_fields)
  with t b have 2: "\<exists>s'. transfer funded_world user1 user2 300 = Inr s' \<and>
      get_balance s' user1 = 9700 \<and> get_balance s' user2 = 10300 \<and>
      map_option transfer_events (token_events s' afjp_crypto) =
        Some [TransferEvent 300 user1 user2 0]"
    by blast
  from 1 2 show ?thesis
    by (simp add: uninitialized_world_fields)
qed

text \<open>
  Only the module address can hold the token's capabilities, and \<open>initialize\<close> stores it
  as the admin of its own \<open>TokenInfo\<close>. A caller without capabilities is stopped by the
  first check of \<open>mint\<close>; the \<open>E_NOT_ADMIN\<close> abort would need a \<open>TokenInfo\<close> whose admin is
  not the address that holds it.
\<close>

lemma mint_without_capabilities:
  "admin_addr \<notin> token_capabilities s \<Longrightarrow>
   mint s admin_addr recipient amount = Inl (Abort AfjpToken token_E_NOT_INITIALIZED)"
  by (simp add: mint_def)

lemma mint_not_admin_needs_foreign_info:
  assumes "mint s admin_addr recipient amount = Inl (Abort AfjpToken token_E_NOT_ADMIN)"
  shows "\<exists>info. admin_addr \<in> token_capabilities s \<and>
           token_info s admin_addr = Some info \<and> admin info \<noteq> admin_addr"
  using assms
  by (auto simp: mint_def and_then_def add64_def coin_deposit_def token_E_NOT_ADMIN_def
      token_E_NOT_INITIALIZED_def token_E_INVALID_AMOUNT_def
      split: if_splits option.splits sum.splits)

lemma token_initialize_admin:
  assumes "token_initialize s admin_addr = Inr s'"
  shows "token_capabilities s' = insert afjp_crypto (token_capabilities s)"
    and "map_option admin (token_info s' afjp_crypto) = Some afjp_crypto"
    and "admin_addr = afjp_crypto"
  using assms
  by (auto simp: token_initialize_def split: if_splits)

text \<open>
  C8 (the code departs from the claim). In the funded state, where the token was
  initialised by the module address, \<open>mint\<close> called by any other account aborts with
  \<open>E_NOT_INITIALIZED\<close> (code 3), not with \<open>E_NOT_ADMIN\<close> (code 1): the capabilities are
  looked up at the caller's own address, so the admin comparison that follows is never
  reached by a caller who is not the admin. The abort leaves the state as it was.
\<close>

theorem mint_by_non_admin_not_initialized:
  "mint funded_world (Account n) recipient amount =
     Inl (Abort AfjpToken token_E_NOT_INITIALIZED) \<and>
   Abort AfjpToken token_E_NOT_INITIALIZED \<noteq> Abort AfjpToken token_E_NOT_ADMIN"
  by (simp add: mint_def funded_world_token token_E_NOT_INITIALIZED_def token_E_NOT_ADMIN_def)

section \<open>Adding to the reward budget\<close>

lemma staked_world_ok: "stake_tokens funded_world user1 1000 = Inr staked_world"
  by (simp add: staked_world_def committed_def stake_tokens_def update_pool_rewards_def
      get_balance_def funded_world_fields get_admin_address_def and_then_def arith_defs
      coin_defs staking_consts)

lemma staked_world_fields:
  "afjp_coins staked_world = [afjp_crypto \<mapsto> 1000, user1 \<mapsto> 9000, user2 \<mapsto> 10000]"
  "staking_pool staked_world =
     [afjp_crypto \<mapsto> \<lparr> total_staked = 1000, total_rewards_distributed = 0,
        reward_rate_per_second = 0, last_update_time = 0,
        accumulated_reward_per_token = 0, pool_admin = afjp_crypto, is_active = True,
        total_stakers = 1 \<rparr>]"
  "staker_info staked_world =
     [user1 \<mapsto> \<lparr> staked_amount = 1000, reward_debt = 0, last_stake_time = 0,
        total_rewards_claimed = 0, user_reward_per_token_paid = 0 \<rparr>]"
  "staking_events staked_world =
     [afjp_crypto \<mapsto> \<lparr> stake_events = [StakeEvent user1 1000 0], unstake_events = [],
        claim_events = [] \<rparr>]"
  "now_seconds staked_world = 0"
  by (auto simp: staked_world_def committed_def stake_tokens_def update_pool_rewards_def
      get_balance_def funded_world_fields get_admin_address_def and_then_def arith_defs
      coin_defs staking_consts fun_eq_iff)

lemma staked_world_later_fields:
  "staking_pool staked_world_later = staking_pool staked_world"
  "staker_info staked_world_later = staker_info staked_world"
  "now_seconds staked_world_later = 100"
  by (simp_all add: staked_world_later_def set_time_def)

text \<open>
  Both rates computed from the constants truncate to 0, so \<open>initialize\<close> stores rate 0
  and \<open>add_rewards\<close> caps every rate at 0; \<open>add_rewards\<close> changes no other field of the
  pool, the time of the last update and the accumulator included.
\<close>

lemma base_rate_zero: "(BASE_APY * REWARD_PRECISION) div (10000 * SECONDS_PER_YEAR) = 0"
  by (simp add: staking_consts)

lemma max_rate_zero: "(MAX_APY * REWARD_PRECISION) div (10000 * SECONDS_PER_YEAR) = 0"
  by (simp add: staking_consts)

lemma staking_initialize_rate:
  assumes "staking_initialize s admin_addr = Inr s'"
  shows "map_option reward_rate_per_second (staking_pool s' admin_addr) = Some 0"
  using assms
  by (auto simp: staking_initialize_def Let_def base_rate_zero split: if_splits)

lemma add_rewards_pool:
  assumes "add_rewards s admin_addr amount = Inr s'"
  shows "\<exists>pool rate. staking_pool s admin_addr = Some pool \<and>
           staking_pool s' admin_addr = Some (pool\<lparr> reward_rate_per_second := rate \<rparr>) \<and>
           (0 < total_staked pool \<longrightarrow> rate = 0)"
proof -
  from assms obtain pool where p: "staking_pool s admin_addr = Some pool"
    by (auto simp: add_rewards_def split: option.splits)
  show ?thesis
  proof (cases "0 < total_staked pool")
    case True
    with assms p show ?thesis
      by (auto simp: add_rewards_def and_then_Inr_iff max_rate_zero Let_def
          split: if_splits)
  next
    case False
    with assms p have "s' = s"
      by (auto simp: add_rewards_def split: if_splits)
    with p False show ?thesis
      by (intro exI [of _ pool] exI [of _ "reward_rate_per_second pool"]) simp
  qed
qed

text \<open>
  C9 (the code departs from the claim). \<open>add_rewards\<close> is admin-only, raises the rate by
  \<open>amount * P div (total_staked * SECONDS_PER_YEAR)\<close> when something is staked and caps
  it, but it does not run the update step first. After a stake at time 0, a call at time
  100 commits and leaves \<open>last_update_time\<close> at 0, where the update step would store
  100. On the example pool (rate 100, 10 pending) the call made without the update step
  loses the accrual of the elapsed interval: the query returns 0 afterwards, and 10 when
  the update step is run first as the specification words it.
\<close>

theorem add_rewards_skips_update:
  "now_seconds staked_world_later = 100 \<and>
   add_rewards staked_world_later afjp_crypto 1000000 = Inr staked_world_later \<and>
   map_option last_update_time (staking_pool staked_world_later afjp_crypto) = Some 0 \<and>
   map_option last_update_time
     (staking_pool (committed (update_pool_rewards staked_world_later)) afjp_crypto) = Some 100 \<and>
   calculate_rewards accrual_world user1 = Inr 10 \<and>
   calculate_rewards (committed (add_rewards accrual_world afjp_crypto 0)) user1 = Inr 0 \<and>
   calculate_rewards (committed (add_reward_budget_spec accrual_world afjp_crypto 0)) user1 =
     Inr 10"
proof -
  have 1: "add_rewards staked_world_later afjp_crypto 1000000 = Inr staked_world_later"
    by (simp add: add_rewards_def staked_world_later_fields staked_world_fields and_then_def
        arith_defs staking_consts)
  have 2: "map_option last_update_time
     (staking_pool (committed (update_pool_rewards staked_world_later)) afjp_crypto) = Some 100"
    by (simp add: update_pool_rewards_def staked_world_later_fields staked_world_fields
        committed_def get_admin_address_def and_then_def arith_defs)
  have 3: "calculate_rewards (committed (add_rewards accrual_world afjp_crypto 0)) user1 = Inr 0"
    by (simp add: add_rewards_def calculate_rewards_def accrual_world_fields committed_def
        pool_example_def staker_example_def get_admin_address_def and_then_def arith_defs
        staking_consts)
  have 4: "calculate_rewards (committed (add_reward_budget_spec accrual_world afjp_crypto 0))
      user1 = Inr 10"
    by (simp add: add_reward_budget_spec_def add_rewards_def calculate_rewards_def update_pool_rewards_def
        accrual_world_fields committed_def
        pool_example_def staker_example_def get_admin_address_def and_then_def arith_defs
        staking_consts)
  show ?thesis
    by (simp add: 1 2 3 4 accrual_world_calculate staked_world_later_fields
        staked_world_fields)
qed

section \<open>Vesting\<close>

lemma funded_world_vesting:
  "vesting_pool funded_world =
     [afjp_crypto \<mapsto> \<lparr> total_vested = 0, total_released = 0,
        vesting_admin = afjp_crypto, schedule_count = 0 \<rparr>]"
  "vesting_events funded_world =
     [afjp_crypto \<mapsto> \<lparr> schedule_created_events = [], tokens_released_events = [],
        schedule_revoked_events = [] \<rparr>]"
  by (simp_all add: and_then_def arith_defs coin_defs setup_defs)

lemma vested_world_ok:
  "create_vesting_schedule funded_world user1 user2 5000 = Inr vested_world"
  by (simp add: vested_world_def committed_def create_vesting_schedule_def get_balance_def
      funded_world_fields funded_world_vesting get_admin_address_def and_then_def arith_defs
      coin_defs VESTING_DURATION_SECONDS_def CLIFF_DURATION_SECONDS_def)

lemma vested_world_fields:
  "afjp_coins vested_world = [afjp_crypto \<mapsto> 5000, user1 \<mapsto> 5000, user2 \<mapsto> 10000]"
  "vesting_pool vested_world =
     [afjp_crypto \<mapsto> \<lparr> total_vested = 5000, total_released = 0,
        vesting_admin = afjp_crypto, schedule_count = 1 \<rparr>]"
  "vesting_events vested_world =
     [afjp_crypto \<mapsto> \<lparr> schedule_created_events =
          [ScheduleCreatedEvent user2 5000 0 31536000 157680000 user1],
        tokens_released_events = [], schedule_revoked_events = [] \<rparr>]"
  "now_seconds vested_world = 0"
  by (auto simp: vested_world_def committed_def create_vesting_schedule_def get_balance_def
      funded_world_fields funded_world_vesting get_admin_address_def and_then_def arith_defs
      coin_defs VESTING_DURATION_SECONDS_def CLIFF_DURATION_SECONDS_def fun_eq_iff)

lemma released_world_ok: "release_vested_tokens vested_world user2 = Inr released_world"
  by (simp add: released_world_def committed_def release_vested_tokens_def
      vested_world_fields get_admin_address_def)

lemma released_world_fields:
  "afjp_coins released_world = afjp_coins vested_world"
  "vesting_pool released_world = vesting_pool vested_world"
  "vesting_events released_world =
     [afjp_crypto \<mapsto> \<lparr> schedule_created_events =
          [ScheduleCreatedEvent user2 5000 0 31536000 157680000 user1],
        tokens_released_events = [TokensReleasedEvent user2 0 0 0],
        schedule_revoked_events = [] \<rparr>]"
  by (simp_all add: released_world_def committed_def release_vested_tokens_def
      vested_world_fields get_admin_address_def)

text \<open>
  C5 (amended). The vesting module stores no schedule: \<open>calculate_vested_amount\<close> and
  \<open>get_releasable_amount\<close> return 0 for every beneficiary at every time, and
  \<open>release_vested_tokens\<close> never aborts with a code of the vesting module (there is no
  nothing-to-release failure). Once the vesting pool and its events exist, every call
  commits, whatever the time and however often it is repeated: it moves no token, leaves
  the pool statistics as they were, and appends a \<open>TokensReleasedEvent\<close> with amount 0 and
  total released 0.
\<close>

theorem vesting_is_stubbed:
  "calculate_vested_amount beneficiary = 0 \<and> get_releasable_amount beneficiary = 0 \<and>
   (\<forall>code. release_vested_tokens s beneficiary \<noteq> Inl (Abort AfjpVesting code)) \<and>
   (\<forall>pool events.
      vesting_pool s afjp_crypto = Some pool \<and> vesting_events s afjp_crypto = Some events \<longrightarrow>
      release_vested_tokens s beneficiary =
        Inr (s\<lparr> vesting_events := (vesting_events s)(afjp_crypto \<mapsto>
               events\<lparr> tokens_released_events := tokens_released_events events @
                 [TokensReleasedEvent beneficiary 0 (now_seconds s) 0] \<rparr>) \<rparr>))"
  by (auto simp: calculate_vested_amount_def get_releasable_amount_def
      release_vested_tokens_def get_admin_address_def split: option.splits)

text \<open>
  Witness for C5: after a schedule of 5000 is created for user 2 at time 0, a release at
  time 0 commits, leaves user 2's balance and \<open>total_released\<close> as they were, and
  appends the event with amount 0.
\<close>

theorem vesting_is_stubbed_witness:
  "release_vested_tokens vested_world user2 = Inr released_world \<and>
   get_balance released_world user2 = get_balance vested_world user2 \<and>
   map_option tokens_released_events (vesting_events released_world afjp_crypto) =
     Some [TokensReleasedEvent user2 0 0 0] \<and>
   map_option total_released (vesting_pool released_world afjp_crypto) = Some 0"
proof -
  have pre: "vesting_pool vested_world afjp_crypto =
      Some \<lparr> total_vested = 5000, total_released = 0, vesting_admin = afjp_crypto,
             schedule_count = 1 \<rparr> \<and>
    vesting_events vested_world afjp_crypto =
      Some \<lparr> schedule_created_events =
               [ScheduleCreatedEvent user2 5000 0 31536000 157680000 user1],
             tokens_released_events = [], schedule_revoked_events = [] \<rparr>"
    by (simp add: vested_world_fields)
  from vesting_is_stubbed [of user2 vested_world, THEN conjunct2, THEN conjunct2,
      THEN conjunct2, rule_format, OF pre]
  have "release_vested_tokens vested_world user2 = Inr released_world"
    by (simp add: released_world_def committed_def)
  then show ?thesis
    by (simp add: released_world_fields vested_world_fields get_balance_def)
qed

text \<open>
  Counterexample to C5 as stated: with a schedule of 5000 created at time 0, a release
  before the cliff commits instead of failing, the vested amount is 0 and not 5000 (the
  value claimed from the end of the schedule on), and the releasable amount is 0 and not
  1000 (the value claimed at the cliff).
\<close>

theorem vesting_schedule_counterexample:
  "create_vesting_schedule funded_world user1 user2 5000 = Inr vested_world \<and>
   now_seconds vested_world < CLIFF_DURATION_SECONDS \<and>
   release_vested_tokens vested_world user2 = Inr released_world \<and>
   calculate_vested_amount user2 = 0 \<and> calculate_vested_amount user2 \<noteq> 5000 \<and>
   get_releasable_amount user2 = 0 \<and> get_releasable_amount user2 \<noteq> 1000"
  by (simp add: vested_world_ok released_world_ok vested_world_fields
      calculate_vested_amount_def get_releasable_amount_def CLIFF_DURATION_SECONDS_def)

section \<open>Conversion of the primary token into the derived token\<close>

lemma funded_world_juventud:
  "juventud_capabilities funded_world = {afjp_crypto}"
  "juventud_info funded_world =
     [afjp_crypto \<mapsto> \<lparr> j_total_supply = 0, j_total_burned = 0, total_afjp_burned = 0,
        j_admin = afjp_crypto, exchange_rate = 10 \<rparr>]"
  "juventud_events funded_world =
     [afjp_crypto \<mapsto> \<lparr> burn_afjp_events = [], discount_applied_events = [],
        exchange_rate_updated_events = [] \<rparr>]"
  "discount_system funded_world =
     [afjp_crypto \<mapsto> \<lparr> base_discount_rate = 1000, max_discount_per_transaction = 500000,
        total_discounts_applied = 0 \<rparr>]"
  "user_discount_info funded_world = Map.empty"
  by (simp_all add: and_then_def arith_defs coin_defs setup_defs AFJP_TO_JUVENTUD_RATE_def)

text \<open>What a committed burn does to the state.\<close>

lemma burn_success:
  assumes "burn s account_addr amount = Inr s1"
  shows "\<exists>info events v.
           token_info s afjp_crypto = Some info \<and> token_events s afjp_crypto = Some events \<and>
           afjp_coins s account_addr = Some v \<and> amount \<le> v \<and> 0 < amount \<and>
           s1 = s\<lparr> afjp_coins := (afjp_coins s)(account_addr \<mapsto> v - amount),
                   token_info := (token_info s)(afjp_crypto \<mapsto>
                     info\<lparr> burned_amount := burned_amount info + amount \<rparr>),
                   token_events := (token_events s)(afjp_crypto \<mapsto>
                     events\<lparr> burn_events := burn_events events @
                       [BurnEvent amount account_addr (now_seconds s)] \<rparr>) \<rparr>"
  using assms
  by (auto simp: burn_def get_admin_address_def Let_def and_then_Inr_iff add64_def
      coin_withdraw_def coin_balance_def split: option.splits if_splits)

lemma burn_progress:
  assumes "afjp_crypto \<in> token_capabilities s" "0 < amount"
    "token_info s afjp_crypto = Some info" "token_events s afjp_crypto = Some events"
    "afjp_coins s account_addr = Some v" "amount \<le> v"
    "burned_amount info + amount \<le> MAX_U64"
  shows "burn s account_addr amount =
           Inr (s\<lparr> afjp_coins := (afjp_coins s)(account_addr \<mapsto> v - amount),
                   token_info := (token_info s)(afjp_crypto \<mapsto>
                     info\<lparr> burned_amount := burned_amount info + amount \<rparr>),
                   token_events := (token_events s)(afjp_crypto \<mapsto>
                     events\<lparr> burn_events := burn_events events @
                       [BurnEvent amount account_addr (now_seconds s)] \<rparr>) \<rparr>)"
  using assms
  by (simp add: burn_def get_admin_address_def Let_def add64_def
      coin_withdraw_def coin_balance_def)

lemma convert_success:
  assumes "burn_afjp_for_juventud s user afjp_amount = Inr s'"
  shows "\<exists>info tinfo.
           juventud_info s afjp_crypto = Some info \<and> token_info s afjp_crypto = Some tinfo \<and>
           MIN_BURN_AMOUNT \<le> afjp_amount \<and> afjp_amount \<le> get_balance s user \<and>
           get_balance s' user = get_balance s user - afjp_amount \<and>
           juventud_get_balance s' user =
             juventud_get_balance s user + afjp_amount * exchange_rate info \<and>
           token_info s' afjp_crypto =
             Some (tinfo\<lparr> burned_amount := burned_amount tinfo + afjp_amount \<rparr>) \<and>
           juventud_info s' afjp_crypto =
             Some (info\<lparr> j_total_supply := j_total_supply info + afjp_amount * exchange_rate info,
                         total_afjp_burned := total_afjp_burned info + afjp_amount \<rparr>) \<and>
           (\<forall>a. a \<noteq> user \<longrightarrow>
              afjp_coins s' a = afjp_coins s a \<and> juventud_coins s' a = juventud_coins s a)"
proof -
  from assms obtain info events s1 where
    i: "juventud_info s afjp_crypto = Some info" and
    e: "juventud_events s afjp_crypto = Some events" and
    m: "MIN_BURN_AMOUNT \<le> afjp_amount" "afjp_amount \<le> get_balance s user" and
    b: "burn s user afjp_amount = Inr s1"
    by (auto simp: burn_afjp_for_juventud_def get_admin_address_def Let_def and_then_Inr_iff
        split: option.splits if_splits)
  from burn_success [OF b] obtain tinfo tevents v where
    t: "token_info s afjp_crypto = Some tinfo" and
    v: "afjp_coins s user = Some v" and
    s1: "s1 = s\<lparr> afjp_coins := (afjp_coins s)(user \<mapsto> v - afjp_amount),
                   token_info := (token_info s)(afjp_crypto \<mapsto>
                     tinfo\<lparr> burned_amount := burned_amount tinfo + afjp_amount \<rparr>),
                   token_events := (token_events s)(afjp_crypto \<mapsto>
                     tevents\<lparr> burn_events := burn_events tevents @
                       [BurnEvent afjp_amount user (now_seconds s)] \<rparr>) \<rparr>"
    by blast
  from assms i e m b show ?thesis
    unfolding s1
    by (auto simp: burn_afjp_for_juventud_def get_admin_address_def Let_def and_then_Inr_iff
        mul64_def add64_def coin_deposit_def get_balance_def juventud_get_balance_def
        coin_balance_def t v
        split: option.splits if_splits)
qed

lemma convert_progress:
  assumes "MIN_BURN_AMOUNT \<le> afjp_amount"
    and "afjp_coins s user = Some v" and "afjp_amount \<le> v"
    and "afjp_crypto \<in> token_capabilities s"
    and "token_info s afjp_crypto = Some tinfo" and "token_events s afjp_crypto = Some tevents"
    and "afjp_crypto \<in> juventud_capabilities s"
    and "juventud_info s afjp_crypto = Some info" and "juventud_events s afjp_crypto = Some events"
    and "juventud_coins s user = Some jv"
    and "afjp_amount * exchange_rate info \<le> MAX_U64"
    and "jv + afjp_amount * exchange_rate info \<le> MAX_U64"
    and "j_total_supply info + afjp_amount * exchange_rate info \<le> MAX_U64"
    and "total_afjp_burned info + afjp_amount \<le> MAX_U64"
    and "burned_amount tinfo + afjp_amount \<le> MAX_U64"
  shows "\<exists>s'. burn_afjp_for_juventud s user afjp_amount = Inr s'"
proof -
  from assms(1) have pos: "0 < afjp_amount" by (simp add: MIN_BURN_AMOUNT_def)
  note b = burn_progress [OF assms(4) pos assms(5) assms(6) assms(2) assms(3) assms(15)]
  from assms show ?thesis
    by (simp add: burn_afjp_for_juventud_def get_admin_address_def Let_def b
        mul64_def add64_def coin_deposit_def get_balance_def coin_balance_def)
qed

lemma convert_below_minimum:
  "afjp_amount < MIN_BURN_AMOUNT \<Longrightarrow>
   burn_afjp_for_juventud s user afjp_amount = Inl (Abort JuventudToken juventud_E_INVALID_AMOUNT)"
  by (simp add: burn_afjp_for_juventud_def)

text \<open>
  C6. \<open>burn_afjp_for_juventud\<close> aborts with \<open>E_INVALID_AMOUNT\<close> below \<open>MIN_BURN_AMOUNT\<close>.
  A committed call burned the amount from the holder's AFJP balance, minted
  \<open>amount * exchange_rate\<close> Juventud tokens to the holder, added the amount to AFJP's
  \<open>burned_amount\<close> and to \<open>total_afjp_burned\<close>, added the minted amount to Juventud's
  \<open>total_supply\<close>, and touched no other holder. The call commits whenever both tokens
  are initialised, the holder has the AFJP amount and a Juventud coin store, and no
  counter overflows. An abort commits nothing, so burn and mint take effect together or
  not at all.
\<close>

theorem burn_afjp_for_juventud_converts:
  "(afjp_amount < MIN_BURN_AMOUNT \<longrightarrow>
      burn_afjp_for_juventud s user afjp_amount =
        Inl (Abort JuventudToken juventud_E_INVALID_AMOUNT)) \<and>
   (burn_afjp_for_juventud s user afjp_amount = Inr s' \<longrightarrow>
      (\<exists>info tinfo.
         juventud_info s afjp_crypto = Some info \<and> token_info s afjp_crypto = Some tinfo \<and>
         MIN_BURN_AMOUNT \<le> afjp_amount \<and> afjp_amount \<le> get_balance s user \<and>
         get_balance s' user = get_balance s user - afjp_amount \<and>
         juventud_get_balance s' user =
           juventud_get_balance s user + afjp_amount * exchange_rate info \<and>
         token_info s' afjp_crypto =
           Some (tinfo\<lparr> burned_amount := burned_amount tinfo + afjp_amount \<rparr>) \<and>
         juventud_info s' afjp_crypto =
           Some (info\<lparr> j_total_supply :=
                          j_total_supply info + afjp_amount * exchange_rate info,
                       total_afjp_burned := total_afjp_burned info + afjp_amount \<rparr>) \<and>
         (\<forall>a. a \<noteq> user \<longrightarrow>
            afjp_coins s' a = afjp_coins s a \<and> juventud_coins s' a = juventud_coins s a))) \<and>
   (\<forall>v tinfo tevents info events jv.
      MIN_BURN_AMOUNT \<le> afjp_amount \<and>
      afjp_coins s user = Some v \<and> afjp_amount \<le> v \<and>
      afjp_crypto \<in> token_capabilities s \<and>
      token_info s afjp_crypto = Some tinfo \<and> token_events s afjp_crypto = Some tevents \<and>
      afjp_crypto \<in> juventud_capabilities s \<and>
      juventud_info s afjp_crypto = Some info \<and>
      juventud_events s afjp_crypto = Some events \<and>
      juventud_coins s user = Some jv \<and>
      afjp_amount * exchange_rate info \<le> MAX_U64 \<and>
      jv + afjp_amount * exchange_rate info \<le> MAX_U64 \<and>
      j_total_supply info + afjp_amount * exchange_rate info \<le> MAX_U64 \<and>
      total_afjp_burned info + afjp_amount \<le> MAX_U64 \<and>
      burned_amount tinfo + afjp_amount \<le> MAX_U64 \<longrightarrow>
      (\<exists>s'. burn_afjp_for_juventud s user afjp_amount = Inr s'))"
proof (intro conjI impI allI)
  assume "afjp_amount < MIN_BURN_AMOUNT"
  then show "burn_afjp_for_juventud s user afjp_amount =
      Inl (Abort JuventudToken juventud_E_INVALID_AMOUNT)"
    by (rule convert_below_minimum)
next
  assume "burn_afjp_for_juventud s user afjp_amount = Inr s'"
  then show "\<exists>info tinfo.
         juventud_info s afjp_crypto = Some info \<and> token_info s afjp_crypto = Some tinfo \<and>
         MIN_BURN_AMOUNT \<le> afjp_amount \<and> afjp_amount \<le> get_balance s user \<and>
         get_balance s' user = get_balance s user - afjp_amount \<and>
         juventud_get_balance s' user =
           juventud_get_balance s user + afjp_amount * exchange_rate info \<and>
         token_info s' afjp_crypto =
           Some (tinfo\<lparr> burned_amount := burned_amount tinfo + afjp_amount \<rparr>) \<and>
         juventud_info s' afjp_crypto =
           Some (info\<lparr> j_total_supply :=
                          j_total_supply info + afjp_amount * exchange_rate info,
                       total_afjp_burned := total_afjp_burned info + afjp_amount \<rparr>) \<and>
         (\<forall>a. a \<noteq> user \<longrightarrow>
            afjp_coins s' a = afjp_coins s a \<and> juventud_coins s' a = juventud_coins s a)"
    by (rule convert_success)
next
  fix v tinfo tevents info events jv
  assume "MIN_BURN_AMOUNT \<le> afjp_amount \<and>
      afjp_coins s user = Some v \<and> afjp_amount \<le> v \<and>
      afjp_crypto \<in> token_capabilities s \<and>
      token_info s afjp_crypto = Some tinfo \<and> token_events s afjp_crypto = Some tevents \<and>
      afjp_crypto \<in> juventud_capabilities s \<and>
      juventud_info s afjp_crypto = Some info \<and>
      juventud_events s afjp_crypto = Some events \<and>
      juventud_coins s user = Some jv \<and>
      afjp_amount * exchange_rate info \<le> MAX_U64 \<and>
      jv + afjp_amount * exchange_rate info \<le> MAX_U64 \<and>
      j_total_supply info + afjp_amount * exchange_rate info \<le> MAX_U64 \<and>
      total_afjp_burned info + afjp_amount \<le> MAX_U64 \<and>
      burned_amount tinfo + afjp_amount \<le> MAX_U64"
  then show "\<exists>s'. burn_afjp_for_juventud s user afjp_amount = Inr s'"
    using convert_progress [of afjp_amount s user v tinfo tevents info events jv] by blast
qed

text \<open>
  Witness for C6 (scenario D): in the funded state user 1 converts 100 at rate 10 and
  receives 1000 Juventud tokens; AFJP's \<open>burned_amount\<close> goes from 0 to 100 and
  Juventud's \<open>total_supply\<close> from 0 to 1000; converting 99 aborts.
\<close>

theorem burn_afjp_for_juventud_converts_witness:
  "burn_afjp_for_juventud funded_world user1 100 = Inr converted_world \<and>
   juventud_get_balance funded_world user1 = 0 \<and>
   juventud_get_balance converted_world user1 = 1000 \<and>
   get_balance funded_world user1 = 10000 \<and>
   get_balance converted_world user1 = 9900 \<and>
   map_option burned_amount (token_info funded_world afjp_crypto) = Some 0 \<and>
   map_option burned_amount (token_info converted_world afjp_crypto) = Some 100 \<and>
   map_option j_total_supply (juventud_info funded_world afjp_crypto) = Some 0 \<and>
   map_option j_total_supply (juventud_info converted_world afjp_crypto) = Some 1000 \<and>
   burn_afjp_for_juventud funded_world user1 99 =
     Inl (Abort JuventudToken juventud_E_INVALID_AMOUNT)"
proof -
  note t = burn_afjp_for_juventud_converts [of 100 funded_world user1 converted_world]
  have pre: "MIN_BURN_AMOUNT \<le> 100 \<and>
      afjp_coins funded_world user1 = Some 10000 \<and> (100::nat) \<le> 10000 \<and>
      afjp_crypto \<in> token_capabilities funded_world \<and>
      token_info funded_world afjp_crypto =
        Some \<lparr> total_supply = 20000, burned_amount = 0, admin = afjp_crypto \<rparr> \<and>
      token_events funded_world afjp_crypto =
        Some \<lparr> mint_events = [MintEvent 10000 user1 0, MintEvent 10000 user2 0],
               burn_events = [], transfer_events = [] \<rparr> \<and>
      afjp_crypto \<in> juventud_capabilities funded_world \<and>
      juventud_info funded_world afjp_crypto =
        Some \<lparr> j_total_supply = 0, j_total_burned = 0, total_afjp_burned = 0,
               j_admin = afjp_crypto, exchange_rate = 10 \<rparr> \<and>
      juventud_events funded_world afjp_crypto =
        Some \<lparr> burn_afjp_events = [], discount_applied_events = [],
               exchange_rate_updated_events = [] \<rparr> \<and>
      juventud_coins funded_world user1 = Some 0 \<and>
      100 * exchange_rate \<lparr> j_total_supply = 0, j_total_burned = 0, total_afjp_burned = 0,
               j_admin = afjp_crypto, exchange_rate = 10 \<rparr> \<le> MAX_U64 \<and>
      0 + 100 * exchange_rate \<lparr> j_total_supply = 0, j_total_burned = 0, total_afjp_burned = 0,
               j_admin = afjp_crypto, exchange_rate = 10 \<rparr> \<le> MAX_U64 \<and>
      j_total_supply \<lparr> j_total_supply = 0, j_total_burned = 0, total_afjp_burned = 0,
               j_admin = afjp_crypto, exchange_rate = 10 \<rparr> +
        100 * exchange_rate \<lparr> j_total_supply = 0, j_total_burned = 0, total_afjp_burned = 0,
               j_admin = afjp_crypto, exchange_rate = 10 \<rparr> \<le> MAX_U64 \<and>
      total_afjp_burned \<lparr> j_total_supply = 0, j_total_burned = 0, total_afjp_burned = 0,
               j_admin = afjp_crypto, exchange_rate = 10 \<rparr> + 100 \<le> MAX_U64 \<and>
      burned_amount \<lparr> total_supply = 20000, burned_amount = 0, admin = afjp_crypto \<rparr> + 100
        \<le> MAX_U64"
    by (simp add: funded_world_fields funded_world_token funded_world_juventud
        MIN_BURN_AMOUNT_def MAX_U64_def)
  from t [THEN conjunct2, THEN conjunct2, rule_format, OF pre]
  have ok: "burn_afjp_for_juventud funded_world user1 100 = Inr converted_world"
    by (auto simp: converted_world_def committed_def)
  from t [THEN conjunct2, THEN conjunct1, rule_format, OF ok]
  have post: "get_balance converted_world user1 = 9900 \<and>
      juventud_get_balance converted_world user1 = 1000 \<and>
      map_option burned_amount (token_info converted_world afjp_crypto) = Some 100 \<and>
      map_option j_total_supply (juventud_info converted_world afjp_crypto) = Some 1000"
    by (auto simp: funded_world_fields funded_world_token funded_world_juventud
        get_balance_def juventud_get_balance_def coin_balance_def)
  have low: "burn_afjp_for_juventud funded_world user1 99 =
      Inl (Abort JuventudToken juventud_E_INVALID_AMOUNT)"
    using burn_afjp_for_juventud_converts [of 99 funded_world user1, THEN conjunct1]
    by (simp add: MIN_BURN_AMOUNT_def)
  show ?thesis
    using ok post low
    by (simp add: funded_world_fields funded_world_token funded_world_juventud
        get_balance_def juventud_get_balance_def coin_balance_def)
qed

section \<open>Stake and unstake\<close>







lemma stake_tokens_pool_exists:
  assumes "stake_tokens s h amount = Inr s1"
  shows "staking_pool s afjp_crypto \<noteq> None"
  using assms by (auto simp: stake_tokens_def get_admin_address_def Let_def split: if_splits)



lemma unstaked_world_ok: "unstake_tokens staked_world user1 1000 = Inr unstaked_world"
  by (simp add: unstaked_world_def committed_def unstake_tokens_def update_pool_rewards_def
      staked_world_fields get_admin_address_def and_then_def arith_defs)

lemma unstaked_world_fields:
  "afjp_coins unstaked_world = afjp_coins staked_world"
  "staker_info unstaked_world =
     [user1 \<mapsto> \<lparr> staked_amount = 0, reward_debt = 0, last_stake_time = 0,
        total_rewards_claimed = 0, user_reward_per_token_paid = 0 \<rparr>]"
  by (simp_all add: unstaked_world_def committed_def unstake_tokens_def
      update_pool_rewards_def staked_world_fields get_admin_address_def and_then_def
      arith_defs)

section \<open>Supply accounting\<close>

text \<open>
  The primary token keeps its books: every committed \<open>mint\<close>, \<open>burn\<close> and \<open>transfer\<close>,
  and so every committed sequence of them, preserves that the balances and
  \<open>burned_amount\<close> add up to \<open>total_supply\<close>.
\<close>

lemma sum_balances_update:
  assumes "finite (dom cs)" and "cs a = Some v"
  shows "sum_balances (cs(a \<mapsto> v')) + v = sum_balances cs + v'"
proof -
  have d: "dom (cs(a \<mapsto> v')) = dom cs" using assms(2) by auto
  have in_dom: "a \<in> dom cs" using assms(2) by auto
  have rest: "(\<Sum>x \<in> dom cs - {a}. coin_balance (cs(a \<mapsto> v')) x) =
              (\<Sum>x \<in> dom cs - {a}. coin_balance cs x)"
    by (rule sum.cong) (simp_all add: coin_balance_def)
  have "sum_balances (cs(a \<mapsto> v')) =
          v' + (\<Sum>x \<in> dom cs - {a}. coin_balance (cs(a \<mapsto> v')) x)"
    unfolding sum_balances_def d
    by (subst sum.remove [OF assms(1) in_dom]) (simp add: coin_balance_def)
  moreover have "sum_balances cs = v + (\<Sum>x \<in> dom cs - {a}. coin_balance cs x)"
    unfolding sum_balances_def
    by (subst sum.remove [OF assms(1) in_dom]) (simp add: coin_balance_def assms(2))
  ultimately show ?thesis using rest by simp
qed

lemma coin_deposit_sum:
  assumes "finite (dom cs)" and "coin_deposit cs a n = Inr cs'"
  shows "sum_balances cs' = sum_balances cs + n" and "dom cs' = dom cs"
proof -
  from assms(2) obtain v where v: "cs a = Some v" and cs': "cs' = cs(a \<mapsto> v + n)"
    by (auto simp: coin_deposit_def and_then_Inr_iff add64_def split: option.splits if_splits)
  from sum_balances_update [OF assms(1) v, of "v + n"]
  show "sum_balances cs' = sum_balances cs + n" by (simp add: cs')
  from v show "dom cs' = dom cs" by (auto simp: cs')
qed

lemma coin_withdraw_sum:
  assumes "finite (dom cs)" and "coin_withdraw cs a n = Inr cs'"
  shows "sum_balances cs' + n = sum_balances cs" and "dom cs' = dom cs"
proof -
  from assms(2) obtain v where v: "cs a = Some v" and n: "n \<le> v"
    and cs': "cs' = cs(a \<mapsto> v - n)"
    by (auto simp: coin_withdraw_def split: option.splits if_splits)
  from sum_balances_update [OF assms(1) v, of "v - n"] n
  show "sum_balances cs' + n = sum_balances cs" by (simp add: cs')
  from v show "dom cs' = dom cs" by (auto simp: cs')
qed

lemma coin_transfer_sum:
  assumes "finite (dom cs)" and "coin_transfer cs a b n = Inr cs'"
  shows "sum_balances cs' = sum_balances cs" and "dom cs' = dom cs"
proof -
  from assms(2) obtain cs1 where w: "coin_withdraw cs a n = Inr cs1"
    and d: "coin_deposit cs1 b n = Inr cs'"
    by (auto simp: coin_transfer_def and_then_Inr_iff)
  note w' = coin_withdraw_sum [OF assms(1) w]
  from w'(2) assms(1) have f1: "finite (dom cs1)" by simp
  note d' = coin_deposit_sum [OF f1 d]
  from w'(1) d'(1) show "sum_balances cs' = sum_balances cs" by simp
  from w'(2) d'(2) show "dom cs' = dom cs" by simp
qed

lemma mint_accounted:
  assumes inv: "afjp_accounted s" and ok: "mint s admin_addr recipient amount = Inr s'"
  shows "afjp_accounted s'"
proof -
  from inv have fin: "finite (dom (afjp_coins s))"
    and caps: "token_capabilities s \<subseteq> {afjp_crypto}"
    and bal: "sum_balances (afjp_coins s) + get_burned_amount s = get_total_supply s"
    by (simp_all add: afjp_accounted_def)
  from ok caps have a: "admin_addr = afjp_crypto"
    by (auto simp: mint_def split: if_splits)
  from ok obtain info events coins where
    i: "token_info s afjp_crypto = Some info" and
    d: "coin_deposit (afjp_coins s) recipient amount = Inr coins" and
    s': "s' = s\<lparr> afjp_coins := coins,
                  token_info := (token_info s)(afjp_crypto \<mapsto>
                    info\<lparr> total_supply := total_supply info + amount \<rparr>),
                  token_events := (token_events s)(afjp_crypto \<mapsto>
                    events\<lparr> mint_events := mint_events events @
                      [MintEvent amount recipient (now_seconds s)] \<rparr>) \<rparr>"
    unfolding a
    by (auto simp: mint_def and_then_Inr_iff add64_def split: if_splits option.splits)
  note d' = coin_deposit_sum [OF fin d]
  from bal d' fin caps show ?thesis
    by (simp add: afjp_accounted_def s' get_total_supply_def get_burned_amount_def
        get_admin_address_def i)
qed

lemma burn_accounted:
  assumes inv: "afjp_accounted s" and ok: "burn s account_addr amount = Inr s'"
  shows "afjp_accounted s'"
proof -
  from inv have fin: "finite (dom (afjp_coins s))"
    and caps: "token_capabilities s \<subseteq> {afjp_crypto}"
    and bal: "sum_balances (afjp_coins s) + get_burned_amount s = get_total_supply s"
    by (simp_all add: afjp_accounted_def)
  from burn_success [OF ok] obtain info events v where
    i: "token_info s afjp_crypto = Some info" and
    v: "afjp_coins s account_addr = Some v" and le: "amount \<le> v" and
    s': "s' = s\<lparr> afjp_coins := (afjp_coins s)(account_addr \<mapsto> v - amount),
                   token_info := (token_info s)(afjp_crypto \<mapsto>
                     info\<lparr> burned_amount := burned_amount info + amount \<rparr>),
                   token_events := (token_events s)(afjp_crypto \<mapsto>
                     events\<lparr> burn_events := burn_events events @
                       [BurnEvent amount account_addr (now_seconds s)] \<rparr>) \<rparr>"
    by blast
  from sum_balances_update [OF fin v, of "v - amount"] le
  have "sum_balances ((afjp_coins s)(account_addr \<mapsto> v - amount)) + amount =
          sum_balances (afjp_coins s)" by simp
  moreover from v have "dom ((afjp_coins s)(account_addr \<mapsto> v - amount)) = dom (afjp_coins s)"
    by auto
  ultimately show ?thesis
    using bal fin caps
    by (simp add: afjp_accounted_def s' get_total_supply_def get_burned_amount_def
        get_admin_address_def i)
qed

lemma transfer_accounted:
  assumes inv: "afjp_accounted s" and ok: "transfer s from_addr to amount = Inr s'"
  shows "afjp_accounted s'"
proof -
  from inv have fin: "finite (dom (afjp_coins s))"
    and caps: "token_capabilities s \<subseteq> {afjp_crypto}"
    and bal: "sum_balances (afjp_coins s) + get_burned_amount s = get_total_supply s"
    by (simp_all add: afjp_accounted_def)
  from ok obtain coins where
    c: "coin_transfer (afjp_coins s) from_addr to amount = Inr coins" and
    s': "afjp_coins s' = coins" "token_info s' = token_info s"
        "token_capabilities s' = token_capabilities s"
    by (auto simp: transfer_def and_then_Inr_iff Let_def split: if_splits option.splits)
  note c' = coin_transfer_sum [OF fin c]
  from bal c' fin caps show ?thesis
    by (simp add: afjp_accounted_def s' get_total_supply_def get_burned_amount_def)
qed

lemma apply_token_ops_accounted:
  "afjp_accounted s \<Longrightarrow> apply_token_ops s ops = Inr s' \<Longrightarrow> afjp_accounted s'"
proof (induction ops arbitrary: s)
  case Nil
  then show ?case by simp
next
  case (Cons x xs)
  from Cons.prems(2) obtain s1 where step: "apply_token_op s x = Inr s1"
    and rest: "apply_token_ops s1 xs = Inr s'"
    by (auto simp: and_then_Inr_iff)
  from step Cons.prems(1) have "afjp_accounted s1"
    by (cases x) (auto intro: mint_accounted burn_accounted transfer_accounted)
  from Cons.IH [OF this rest] show ?case .
qed

lemma funded_world_accounted: "afjp_accounted funded_world"
  by (simp add: afjp_accounted_def funded_world_fields funded_world_token sum_balances_def
      coin_balance_def get_total_supply_def get_burned_amount_def get_admin_address_def)

text \<open>The derived token: conversion mints, the rental discount burns.\<close>

lemma converted_world_ok: "burn_afjp_for_juventud funded_world user1 100 = Inr converted_world"
  by (simp add: converted_world_def committed_def burn_afjp_for_juventud_def burn_def
      get_balance_def funded_world_fields funded_world_token funded_world_juventud
      get_admin_address_def and_then_def arith_defs coin_defs MIN_BURN_AMOUNT_def)

lemma converted_world_fields:
  "afjp_coins converted_world = [afjp_crypto \<mapsto> 0, user1 \<mapsto> 9900, user2 \<mapsto> 10000]"
  "juventud_coins converted_world = [user1 \<mapsto> 1000, user2 \<mapsto> 0]"
  "token_info converted_world =
     [afjp_crypto \<mapsto> \<lparr> total_supply = 20000, burned_amount = 100, admin = afjp_crypto \<rparr>]"
  "juventud_capabilities converted_world = {afjp_crypto}"
  "juventud_info converted_world =
     [afjp_crypto \<mapsto> \<lparr> j_total_supply = 1000, j_total_burned = 0, total_afjp_burned = 100,
        j_admin = afjp_crypto, exchange_rate = 10 \<rparr>]"
  "juventud_events converted_world =
     [afjp_crypto \<mapsto> \<lparr> burn_afjp_events = [BurnAFJPEvent user1 100 1000 0],
        discount_applied_events = [], exchange_rate_updated_events = [] \<rparr>]"
  "discount_system converted_world = discount_system funded_world"
  "user_discount_info converted_world = Map.empty"
  "now_seconds converted_world = 0"
  by (auto simp: converted_world_def committed_def burn_afjp_for_juventud_def burn_def
      get_balance_def funded_world_fields funded_world_token funded_world_juventud
      get_admin_address_def and_then_def arith_defs coin_defs MIN_BURN_AMOUNT_def fun_eq_iff)

lemma discounted_world_ok:
  "apply_rental_discount converted_world user1 1000 10 = Inr discounted_world"
  by (simp add: discounted_world_def committed_def apply_rental_discount_def
      converted_world_fields funded_world_juventud
      get_admin_address_def and_then_def arith_defs coin_defs MAX_DISCOUNT_PERCENTAGE_def)

lemma discounted_world_fields:
  "afjp_coins discounted_world = afjp_coins converted_world"
  "token_info discounted_world = token_info converted_world"
  "juventud_coins discounted_world = [user1 \<mapsto> 900, user2 \<mapsto> 0]"
  "juventud_info discounted_world = juventud_info converted_world"
  by (auto simp: discounted_world_def committed_def apply_rental_discount_def
      converted_world_fields funded_world_juventud
      get_admin_address_def and_then_def arith_defs coin_defs MAX_DISCOUNT_PERCENTAGE_def
      fun_eq_iff)

lemma sum_balances_two:
  "a \<noteq> b \<Longrightarrow> sum_balances [a \<mapsto> x, b \<mapsto> y] = x + y"
  by (simp add: sum_balances_def coin_balance_def)

lemma sum_balances_three:
  "a \<noteq> b \<Longrightarrow> a \<noteq> c \<Longrightarrow> b \<noteq> c \<Longrightarrow> sum_balances [a \<mapsto> x, b \<mapsto> y, c \<mapsto> z] = x + y + z"
  by (simp add: sum_balances_def coin_balance_def)

text \<open>
  C2 (the code departs from the claim). For the derived token the books do not balance
  after a burn: \<open>apply_rental_discount\<close> burns Juventud coins without adding to
  \<open>total_burned\<close>. User 1 converts 100 AFJP into 1000 Juventud tokens and spends 100 of
  them on a discount; the Juventud balances then add up to 900 while \<open>total_supply\<close> is
  1000 and \<open>total_burned\<close> is 0. In the same state the primary token balances:
  \<open>19900 = 20000 - 100\<close>.
\<close>

theorem juventud_burn_not_counted:
  "burn_afjp_for_juventud funded_world user1 100 = Inr converted_world \<and>
   apply_rental_discount converted_world user1 1000 10 = Inr discounted_world \<and>
   sum_balances (juventud_coins converted_world) = 1000 \<and>
   sum_balances (juventud_coins discounted_world) = 900 \<and>
   map_option j_total_supply (juventud_info discounted_world afjp_crypto) = Some 1000 \<and>
   map_option j_total_burned (juventud_info discounted_world afjp_crypto) = Some 0 \<and>
   sum_balances (afjp_coins discounted_world) = 19900 \<and>
   get_total_supply discounted_world = 20000 \<and>
   get_burned_amount discounted_world = 100"
  by (simp add: converted_world_ok discounted_world_ok discounted_world_fields
      converted_world_fields sum_balances_two sum_balances_three get_total_supply_def
      get_burned_amount_def get_admin_address_def)

section \<open>Invariant of the reachable states\<close>



























text \<open>The scenario states are reached by calls of the entry functions.\<close>

lemma execute_all_reachable:
  "reachable s \<Longrightarrow> execute_all s cs = Inr s' \<Longrightarrow> reachable s'"
proof (induction cs arbitrary: s)
  case Nil
  then show ?case by simp
next
  case (Cons c cs)
  from Cons.prems(2) obtain s1 where 1: "execute s c = Inr s1"
    and 2: "execute_all s1 cs = Inr s'"
    by (auto simp: and_then_Inr_iff)
  from Cons.IH [OF reachable_step [OF Cons.prems(1) 1] 2] show ?case .
qed

lemma funded_world_calls:
  "execute_all genesis
     [TokenInitialize afjp_crypto, JuventudInitialize afjp_crypto,
      StakingInitialize afjp_crypto, VestingInitialize afjp_crypto,
      RegisterAfjp afjp_crypto, RegisterAfjp user1, RegisterAfjp user2,
      RegisterJuventud user1, RegisterJuventud user2,
      MintCall afjp_crypto user1 10000, MintCall afjp_crypto user2 10000] = Inr funded_world"
  by (simp add: and_then_def arith_defs coin_defs setup_defs)

lemma funded_world_reachable: "reachable funded_world"
  by (rule execute_all_reachable [OF reachable_genesis funded_world_calls])

lemma staked_world_reachable: "reachable staked_world"
  using reachable_step [OF funded_world_reachable, of "StakeTokens user1 1000" staked_world]
  by (simp add: staked_world_ok)


lemma unstaked_world_reachable: "reachable unstaked_world"
  using reachable_step [OF staked_world_reachable, of "UnstakeTokens user1 1000" unstaked_world]
  by (simp add: unstaked_world_ok)

section \<open>The update step and claims on reachable states\<close>








section \<open>The round trip of a stake\<close>






lemma unstaked_world_staking:
  "staking_pool unstaked_world =
     [afjp_crypto \<mapsto> \<lparr> total_staked = 0, total_rewards_distributed = 0,
        reward_rate_per_second = 0, last_update_time = 0,
        accumulated_reward_per_token = 0, pool_admin = afjp_crypto, is_active = True,
        total_stakers = 0 \<rparr>]"
  "staking_events unstaked_world =
     [afjp_crypto \<mapsto> \<lparr> stake_events = [StakeEvent user1 1000 0],
        unstake_events = [UnstakeEvent user1 1000 0], claim_events = [] \<rparr>]"
  "now_seconds unstaked_world = 0"
  by (simp_all add: unstaked_world_def committed_def unstake_tokens_def
      update_pool_rewards_def staked_world_fields get_admin_address_def and_then_def
      arith_defs)

lemma returned_world_ok: "stake_tokens unstaked_world user1 1000 = Inr returned_world"
  by (simp add: returned_world_def committed_def stake_tokens_def update_pool_rewards_def
      get_balance_def unstaked_world_fields unstaked_world_staking staked_world_fields
      get_admin_address_def and_then_def arith_defs coin_defs staking_consts)

text \<open>
  A staker who comes back after unstaking everything is not counted again by
  \<open>stake_tokens\<close>, so the unstake that empties the record once more subtracts from a
  staker count of 0 and aborts.
\<close>

lemma returning_staker_unstake_aborts:
  "reachable unstaked_world \<and> get_balance unstaked_world user1 = 9000 \<and>
   stake_tokens unstaked_world user1 1000 = Inr returned_world \<and>
   unstake_tokens returned_world user1 1000 = Inl ARITHMETIC_ERROR"
proof -
  have "unstake_tokens returned_world user1 1000 = Inl ARITHMETIC_ERROR"
    by (simp add: returned_world_def committed_def stake_tokens_def unstake_tokens_def
      update_pool_rewards_def
      get_balance_def unstaked_world_fields unstaked_world_staking staked_world_fields
      get_admin_address_def and_then_def arith_defs coin_defs staking_consts)
  then show ?thesis
    by (simp add: unstaked_world_reachable returned_world_ok get_balance_def coin_balance_def
        unstaked_world_fields staked_world_fields)
qed





end
